theory Spec2Isabelle
  imports Complex_Main
begin

section \<open>Python values\<close>

text \<open>
  Every value the two servers store in a token field or read from a request comes out of
  \<^verbatim>\<open>json.loads\<close> / \<^verbatim>\<open>response.json()\<close>, so the value universe is the JSON one.
  Python's \<^verbatim>\<open>None\<close> is \<open>JNull\<close>.

  A Python float is a finite number, an infinity or NaN (\<^verbatim>\<open>json.loads\<close> accepts \<^verbatim>\<open>Infinity\<close>,
  \<^verbatim>\<open>-Infinity\<close> and \<^verbatim>\<open>NaN\<close>, and reads \<^verbatim>\<open>1e999\<close> as infinity). Finite floats are modelled
  as exact reals: the rounding of float arithmetic is not modelled. The clock
  (\<^verbatim>\<open>time.time()\<close>) is always finite and is a plain real.
\<close>

datatype pyfloat = Fin real | PInf | NInf | NaN

datatype json =
    JNull
  | JBool bool
  | JInt int
  | JFloat pyfloat
  | JStr string
  | JArr "json list"
  | JObj "(string \<times> json) list"

text \<open>Python truthiness: what \<^verbatim>\<open>if x\<close>, \<^verbatim>\<open>not x\<close>, \<^verbatim>\<open>bool(x)\<close> test.\<close>

fun truthy :: "json \<Rightarrow> bool" where
  "truthy JNull = False"
| "truthy (JBool b) = b"
| "truthy (JInt i) = (i \<noteq> 0)"
| "truthy (JFloat f) = (f \<noteq> Fin 0)"
| "truthy (JStr s) = (s \<noteq> [])"
| "truthy (JArr xs) = (xs \<noteq> [])"
| "truthy (JObj kvs) = (kvs \<noteq> [])"

text \<open>\<^verbatim>\<open>a and b\<close>, \<^verbatim>\<open>a or b\<close>: they return one of their operands.\<close>

definition py_and :: "json \<Rightarrow> json \<Rightarrow> json" where
  "py_and a b = (if truthy a then b else a)"

definition py_or :: "json \<Rightarrow> json \<Rightarrow> json" where
  "py_or a b = (if truthy a then a else b)"

text \<open>\<^verbatim>\<open>d.get(k, default)\<close> on a dict.\<close>

definition dict_get :: "(string \<times> json) list \<Rightarrow> string \<Rightarrow> json \<Rightarrow> json" where
  "dict_get d k dflt = (case map_of d k of None \<Rightarrow> dflt | Some v \<Rightarrow> v)"

text \<open>
  The operand of \<^verbatim>\<open>time.time() + expires_in - 300\<close>. A float is taken as it is. An int (a
  bool is an int in Python) is converted to a float first, and the conversion raises
  OverflowError when the int does not fit: the largest finite double is
  \<open>2 ^ 1024 - 2 ^ 971\<close>, and an int of magnitude \<open>2 ^ 1024 - 2 ^ 970\<close> or more rounds beyond
  it. Every other value raises TypeError. \<open>None\<close> stands for the exception.
\<close>

definition float_limit :: int where
  "float_limit = 2 ^ 1024 - 2 ^ 970"

fun as_number :: "json \<Rightarrow> pyfloat option" where
  "as_number (JBool b) = Some (Fin (if b then 1 else 0))"
| "as_number (JInt i) = (if \<bar>i\<bar> < float_limit then Some (Fin (of_int i)) else None)"
| "as_number (JFloat f) = Some f"
| "as_number _ = None"

text \<open>
  The float \<^verbatim>\<open>time.time() + expires_in - 300\<close> for a clock reading \<open>now\<close> and an operand
  that has been converted: infinities and NaN absorb the finite terms.
\<close>

fun expiry_time :: "real \<Rightarrow> pyfloat \<Rightarrow> pyfloat" where
  "expiry_time now (Fin expires_in) = Fin (now + expires_in - 300)"
| "expiry_time now PInf = PInf"
| "expiry_time now NInf = NInf"
| "expiry_time now NaN = NaN"

text \<open>\<^verbatim>\<open>time.time() >= t\<close> for a float \<open>t\<close>: every comparison with NaN is False.\<close>

fun reached :: "pyfloat \<Rightarrow> real \<Rightarrow> bool" where
  "reached (Fin t) now = (t \<le> now)"
| "reached PInf now = False"
| "reached NInf now = True"
| "reached NaN now = False"

text \<open>\<^verbatim>\<open>len(x)\<close> is defined on strings, lists and dicts only.\<close>

fun has_len :: "json \<Rightarrow> bool" where
  "has_len (JStr _) = True"
| "has_len (JArr _) = True"
| "has_len (JObj _) = True"
| "has_len _ = False"

fun type_name :: "json \<Rightarrow> string" where
  "type_name JNull = ''NoneType''"
| "type_name (JBool _) = ''bool''"
| "type_name (JInt _) = ''int''"
| "type_name (JFloat _) = ''float''"
| "type_name (JStr _) = ''str''"
| "type_name (JArr _) = ''list''"
| "type_name (JObj _) = ''dict''"

text \<open>A call either returns or raises an exception with a message.\<close>

datatype 'a outcome = Returns 'a | Raises string

section \<open>The outside world\<close>

text \<open>
  The result of one \<^verbatim>\<open>requests\<close> call: the call raises (connection error, timeout), or a
  response arrives with a status code and a body; the body is \<open>None\<close> when
  \<^verbatim>\<open>response.json()\<close> raises on it.
\<close>

datatype http_result = Transport_error | Response int "json option"

datatype endpoint =
    Token_endpoint | Accessible_resources | Profile_endpoint | Accounts_endpoint
  | Org_projects | Create_account

text \<open>What a method does besides changing the manager, in the order it does it.\<close>

datatype effect =
    Http_post endpoint
  | Http_get endpoint
  | Set_auth_complete
  | Call_refresh
  | Start_listener
  | Open_browser

section \<open>Token managers\<close>

text \<open>
  The fields \<^verbatim>\<open>OAuthTokenManager\<close> and \<^verbatim>\<open>ADOOAuthTokenManager\<close> share; client id, secret
  and the URLs never change after construction and are left out.
  \<open>oauth_thread_alive\<close> stands for \<^verbatim>\<open>self.oauth_thread and self.oauth_thread.is_alive()\<close>,
  \<open>auth_complete\<close> for the flag of the \<^verbatim>\<open>threading.Event\<close>.
\<close>

record token_manager =
  access_token :: json
  refresh_token :: json
  expires_at :: "pyfloat option"
  oauth_thread_alive :: bool
  auth_complete :: bool

record jira_manager = token_manager +
  cloud_id :: json

record ado_manager = token_manager +
  ado_url :: json
  organizations :: json
  selected_organization :: json

definition jira_init :: jira_manager where
  "jira_init = \<lparr> access_token = JNull, refresh_token = JNull, expires_at = None,
     oauth_thread_alive = False, auth_complete = False, cloud_id = JNull \<rparr>"

definition ado_init :: ado_manager where
  "ado_init = \<lparr> access_token = JNull, refresh_token = JNull, expires_at = None,
     oauth_thread_alive = False, auth_complete = False,
     ado_url = JNull, organizations = JNull, selected_organization = JNull \<rparr>"

subsection \<open>is_authenticated\<close>

text \<open>Jira: \<^verbatim>\<open>return bool(self.access_token and self.cloud_id)\<close>.\<close>

definition jira_is_authenticated :: "jira_manager \<Rightarrow> bool" where
  "jira_is_authenticated m = truthy (py_and (access_token m) (cloud_id m))"

text \<open>
  ADO: \<^verbatim>\<open>has_token\<close> and \<^verbatim>\<open>has_orgs\<close> are computed for the debug log only;
  the method returns \<^verbatim>\<open>bool(self.access_token)\<close>.
\<close>

definition ado_is_authenticated :: "ado_manager \<Rightarrow> bool" where
  "ado_is_authenticated m =
     (let has_token = truthy (access_token m);
          has_orgs = (organizations m \<noteq> JNull)
      in truthy (access_token m))"

subsection \<open>_get_cloud_id (Jira)\<close>

text \<open>
  The whole body sits in \<^verbatim>\<open>try ... except Exception\<close>. \<^verbatim>\<open>resources[0]['id']\<close> succeeds only
  on a non-empty list whose first element is a dict with the key \<^verbatim>\<open>id\<close>; every other
  truthy body raises and the method returns False.
\<close>

definition get_cloud_id :: "jira_manager \<Rightarrow> http_result \<Rightarrow> bool \<times> jira_manager \<times> effect list" where
  "get_cloud_id m resources_resp =
     (if \<not> truthy (access_token m) then (False, m, [])
      else case resources_resp of
        Transport_error \<Rightarrow> (False, m, [Http_get Accessible_resources])
      | Response status body \<Rightarrow>
          if status = 200 then
            (case body of
               Some (JArr (JObj r # rest)) \<Rightarrow>
                 (case map_of r ''id'' of
                    Some v \<Rightarrow> (True, m\<lparr>cloud_id := v\<rparr>, [Http_get Accessible_resources])
                  | None \<Rightarrow> (False, m, [Http_get Accessible_resources]))
             | _ \<Rightarrow> (False, m, [Http_get Accessible_resources]))
          else (False, m, [Http_get Accessible_resources]))"

subsection \<open>_exchange_code_for_tokens (Jira)\<close>

text \<open>
  \<open>now\<close> is the value of \<^verbatim>\<open>time.time()\<close> in the assignment of \<^verbatim>\<open>expires_at\<close>. The fields are
  assigned one after the other, so an exception half way (a body that is not a dict, an
  \<^verbatim>\<open>expires_in\<close> that is no number or an int too large for a float) leaves the assignments
  already made in place and skips the rest; the
  \<^verbatim>\<open>except Exception\<close> around the body turns it into \<^verbatim>\<open>return False\<close>.
\<close>

definition jira_exchange_code_for_tokens ::
  "jira_manager \<Rightarrow> real \<Rightarrow> http_result \<Rightarrow> http_result \<Rightarrow> bool outcome \<times> jira_manager \<times> effect list" where
  "jira_exchange_code_for_tokens m now token_resp resources_resp =
     (case token_resp of
        Transport_error \<Rightarrow> (Returns False, m, [Http_post Token_endpoint])
      | Response status body \<Rightarrow>
          if status = 200 then
            (case body of
               Some (JObj tokens) \<Rightarrow>
                 (let m1 = m\<lparr>access_token := dict_get tokens ''access_token'' JNull\<rparr>;
                      m2 = m1\<lparr>refresh_token := dict_get tokens ''refresh_token'' JNull\<rparr>
                  in case as_number (dict_get tokens ''expires_in'' (JInt 3600)) of
                       None \<Rightarrow> (Returns False, m2, [Http_post Token_endpoint])
                     | Some expires_in \<Rightarrow>
                         (let m3 = m2\<lparr>expires_at := Some (expiry_time now expires_in)\<rparr>;
                              (got, m4, tr) = get_cloud_id m3 resources_resp
                          in (Returns True, m4, Http_post Token_endpoint # tr)))
             | _ \<Rightarrow> (Returns False, m, [Http_post Token_endpoint]))
          else (Returns False, m, [Http_post Token_endpoint]))"

subsection \<open>_get_ado_organizations (ADO)\<close>

text \<open>
  \<open>str_of\<close> is Python's rendering of a value inside an f-string; it is a parameter.
  One entry of the normalised organization list:
\<close>

definition org_info :: "(json \<Rightarrow> string) \<Rightarrow> (string \<times> json) list \<Rightarrow> json" where
  "org_info str_of org =
     (let name = py_or (dict_get org ''accountName'' JNull) (dict_get org ''name'' JNull)
      in JObj [(''accountId'', py_or (dict_get org ''accountId'' JNull) (dict_get org ''id'' JNull)),
               (''accountName'', name),
               (''accountUri'', py_or (dict_get org ''accountUri'' JNull)
                                  (JStr (''https://dev.azure.com/'' @ str_of name))),
               (''properties'', dict_get org ''properties'' (JObj []))])"

text \<open>
  The \<^verbatim>\<open>for org in orgs\<close> loop appending to \<^verbatim>\<open>self.organizations\<close>: an element that is not
  a dict raises at \<^verbatim>\<open>org.get\<close> and the entries appended so far stay. The flag says whether
  the loop ran to its end.
\<close>

fun collect_orgs :: "(json \<Rightarrow> string) \<Rightarrow> json list \<Rightarrow> json list \<Rightarrow> bool \<times> json list" where
  "collect_orgs str_of acc [] = (True, acc)"
| "collect_orgs str_of acc (JObj org # rest) =
     (if truthy (py_or (dict_get org ''accountName'' JNull) (dict_get org ''name'' JNull))
      then collect_orgs str_of (acc @ [org_info str_of org]) rest
      else collect_orgs str_of acc rest)"
| "collect_orgs str_of acc (_ # rest) = (False, acc)"

definition get_ado_organizations ::
  "(json \<Rightarrow> string) \<Rightarrow> ado_manager \<Rightarrow> http_result \<Rightarrow> http_result \<Rightarrow> bool \<times> ado_manager \<times> effect list" where
  "get_ado_organizations str_of m profile_resp accounts_resp =
     (if \<not> truthy (access_token m) then (False, m, [])
      else
        (case profile_resp of
           Transport_error \<Rightarrow> (False, m, [Http_get Profile_endpoint])
         | Response profile_status profile_body \<Rightarrow>
             if profile_status \<noteq> 200 then (False, m, [Http_get Profile_endpoint])
             else
               (case profile_body of
                  Some (JObj profile_data) \<Rightarrow>
                    if \<not> truthy (dict_get profile_data ''id'' JNull)
                    then (False, m, [Http_get Profile_endpoint])
                    else
                      (case accounts_resp of
                         Transport_error \<Rightarrow>
                           (False, m, [Http_get Profile_endpoint, Http_get Accounts_endpoint])
                       | Response accounts_status accounts_body \<Rightarrow>
                           if accounts_status \<noteq> 200
                           then (False, m, [Http_get Profile_endpoint, Http_get Accounts_endpoint])
                           else
                             (case accounts_body of
                                Some (JObj accounts_data) \<Rightarrow>
                                  (let orgs = dict_get accounts_data ''value'' (JArr [])
                                   in if \<not> truthy orgs
                                      then (False, m\<lparr>organizations := JArr []\<rparr>,
                                            [Http_get Profile_endpoint, Http_get Accounts_endpoint])
                                      else
                                        (case orgs of
                                           JArr xs \<Rightarrow>
                                             (let (done, acc) = collect_orgs str_of [] xs
                                              in (done, m\<lparr>organizations := JArr acc\<rparr>,
                                                  [Http_get Profile_endpoint,
                                                   Http_get Accounts_endpoint]))
                                         | _ \<Rightarrow> (False, m\<lparr>organizations := JArr []\<rparr>,
                                                 [Http_get Profile_endpoint,
                                                  Http_get Accounts_endpoint])))
                              | _ \<Rightarrow> (False, m, [Http_get Profile_endpoint,
                                                 Http_get Accounts_endpoint])))
                | _ \<Rightarrow> (False, m, [Http_get Profile_endpoint]))))"

subsection \<open>select_organization and _create_ado_organization (ADO)\<close>

text \<open>
  \<^verbatim>\<open>_validate_organization_access\<close>: True on a 200 from the organization's projects
  endpoint, False on every other status and on every exception; no request without a token.
\<close>

definition validate_organization_access :: "ado_manager \<Rightarrow> http_result \<Rightarrow> bool \<times> effect list" where
  "validate_organization_access m validate_resp =
     (if \<not> truthy (access_token m) then (False, [])
      else
        (case validate_resp of
           Transport_error \<Rightarrow> (False, [Http_get Org_projects])
         | Response status body \<Rightarrow> (status = 200, [Http_get Org_projects])))"

text \<open>
  The search \<^verbatim>\<open>org['accountName'] == org_name\<close> over the cached list, first match wins. An
  entry that is no dict, or a dict without the key, raises when the search reaches it.
  \<open>org_name\<close> is a string, as the signature \<^verbatim>\<open>org_name: str\<close> says.
\<close>

fun find_org :: "json list \<Rightarrow> string \<Rightarrow> json option outcome" where
  "find_org [] org_name = Returns None"
| "find_org (JObj org # rest) org_name =
     (case map_of org ''accountName'' of
        None \<Rightarrow> Raises ''KeyError''
      | Some v \<Rightarrow> if v = JStr org_name then Returns (Some (JObj org)) else find_org rest org_name)"
| "find_org (_ # rest) org_name = Raises ''TypeError''"

text \<open>
  \<^verbatim>\<open>select_organization\<close> has no \<^verbatim>\<open>try\<close>: an exception of the search leaves the method.
  A truthy \<^verbatim>\<open>self.organizations\<close> that is no list cannot be searched and raises as well.
\<close>

definition select_organization ::
  "ado_manager \<Rightarrow> string \<Rightarrow> http_result \<Rightarrow> bool outcome \<times> ado_manager \<times> effect list" where
  "select_organization m org_name validate_resp =
     (let (valid, tr) = validate_organization_access m validate_resp
      in if valid then
           (let org_info = JObj [(''accountId'', JNull), (''accountName'', JStr org_name),
                                 (''accountUri'', JStr (''https://dev.azure.com/'' @ org_name)),
                                 (''properties'', JObj [])];
                m1 = (if \<not> truthy (organizations m) then m\<lparr>organizations := JArr []\<rparr> else m)
            in case organizations m1 of
                 JArr orgs \<Rightarrow>
                   (case find_org orgs org_name of
                      Raises e \<Rightarrow> (Raises e, m1, tr)
                    | Returns existing \<Rightarrow>
                        (let m2 = (case existing of
                                     None \<Rightarrow> m1\<lparr>organizations := JArr (orgs @ [org_info])\<rparr>
                                   | Some org \<Rightarrow> m1)
                         in (Returns True,
                             m2\<lparr>selected_organization := org_info,
                                ado_url := JStr (''https://dev.azure.com/'' @ org_name)\<rparr>, tr)))
               | _ \<Rightarrow> (Raises ''TypeError'', m1, tr))
         else if \<not> truthy (organizations m) then (Returns False, m, tr)
         else
           (case organizations m of
              JArr orgs \<Rightarrow>
                (case find_org orgs org_name of
                   Raises e \<Rightarrow> (Raises e, m, tr)
                 | Returns None \<Rightarrow> (Returns False, m, tr)
                 | Returns (Some org) \<Rightarrow>
                     (Returns True,
                      m\<lparr>selected_organization := org,
                        ado_url := JStr (''https://dev.azure.com/'' @ org_name)\<rparr>, tr))
            | _ \<Rightarrow> (Raises ''TypeError'', m, tr)))"

text \<open>
  \<^verbatim>\<open>_create_ado_organization\<close>: everything sits in \<^verbatim>\<open>try ... except Exception\<close>; the result
  of the nested \<^verbatim>\<open>select_organization\<close> is ignored, an exception of it gives False. The
  region only goes into the request payload.
\<close>

definition create_ado_organization ::
  "ado_manager \<Rightarrow> string \<Rightarrow> http_result \<Rightarrow> http_result \<Rightarrow> bool \<times> ado_manager \<times> effect list" where
  "create_ado_organization m org_name create_resp validate_resp =
     (if \<not> truthy (access_token m) then (False, m, [])
      else
        (case create_resp of
           Transport_error \<Rightarrow> (False, m, [Http_post Create_account])
         | Response status body \<Rightarrow>
             if status = 200 \<or> status = 201 then
               (case body of
                  Some (JObj org_data) \<Rightarrow>
                    (let new_org = JObj [(''accountId'', dict_get org_data ''accountId'' JNull),
                                         (''accountName'', JStr org_name),
                                         (''accountUri'', dict_get org_data ''accountUri'' JNull),
                                         (''properties'', dict_get org_data ''properties'' (JObj []))];
                         m1 = (if \<not> truthy (organizations m)
                               then m\<lparr>organizations := JArr []\<rparr> else m)
                     in case organizations m1 of
                          JArr orgs \<Rightarrow>
                            (let m2 = m1\<lparr>organizations := JArr (orgs @ [new_org])\<rparr>;
                                 (selected, m3, tr) = select_organization m2 org_name validate_resp
                             in case selected of
                                  Returns b \<Rightarrow> (True, m3, Http_post Create_account # tr)
                                | Raises e \<Rightarrow> (False, m3, Http_post Create_account # tr))
                        | _ \<Rightarrow> (False, m1, [Http_post Create_account]))
                | _ \<Rightarrow> (False, m, [Http_post Create_account]))
             else (False, m, [Http_post Create_account])))"

subsection \<open>_exchange_code_for_tokens (ADO)\<close>

text \<open>
  After the token fields the cached organization data is dropped. The log line
  \<^verbatim>\<open>len(self.access_token) if self.access_token else 0\<close> raises on a truthy token without
  a length, which the outer \<^verbatim>\<open>except\<close> turns into \<^verbatim>\<open>return False\<close>. The organization fetch
  never changes the verdict.
\<close>

definition ado_exchange_code_for_tokens ::
  "(json \<Rightarrow> string) \<Rightarrow> ado_manager \<Rightarrow> real \<Rightarrow> http_result \<Rightarrow> http_result \<Rightarrow> http_result
     \<Rightarrow> bool outcome \<times> ado_manager \<times> effect list" where
  "ado_exchange_code_for_tokens str_of m now token_resp profile_resp accounts_resp =
     (case token_resp of
        Transport_error \<Rightarrow> (Returns False, m, [Http_post Token_endpoint])
      | Response status body \<Rightarrow>
          if status = 200 then
            (case body of
               Some (JObj tokens) \<Rightarrow>
                 (let m1 = m\<lparr>access_token := dict_get tokens ''access_token'' JNull\<rparr>;
                      m2 = m1\<lparr>refresh_token := dict_get tokens ''refresh_token'' JNull\<rparr>
                  in case as_number (dict_get tokens ''expires_in'' (JInt 3600)) of
                       None \<Rightarrow> (Returns False, m2, [Http_post Token_endpoint])
                     | Some expires_in \<Rightarrow>
                         (let m3 = m2\<lparr>expires_at := Some (expiry_time now expires_in)\<rparr>;
                              m4 = m3\<lparr>organizations := JNull, selected_organization := JNull,
                                      ado_url := JNull\<rparr>
                          in if truthy (access_token m4) \<and> \<not> has_len (access_token m4)
                             then (Returns False, m4, [Http_post Token_endpoint])
                             else
                               (let (org_success, m5, tr) =
                                      get_ado_organizations str_of m4 profile_resp accounts_resp
                                in (Returns True, m5, Http_post Token_endpoint # tr))))
             | _ \<Rightarrow> (Returns False, m, [Http_post Token_endpoint]))
          else (Returns False, m, [Http_post Token_endpoint]))"

subsection \<open>refresh_access_token\<close>

text \<open>
  The two classes differ in the request payload only (ADO adds the scope and posts a form
  instead of JSON), so one definition over the shared fields serves both.
  \<open>now\<close> is the \<^verbatim>\<open>time.time()\<close> of the \<^verbatim>\<open>expires_at\<close> assignment.
\<close>

definition refresh_access_token ::
  "'a token_manager_scheme \<Rightarrow> real \<Rightarrow> http_result \<Rightarrow> bool \<times> 'a token_manager_scheme \<times> effect list" where
  "refresh_access_token m now resp =
     (if \<not> truthy (refresh_token m) then (False, m, [])
      else case resp of
        Transport_error \<Rightarrow> (False, m, [Http_post Token_endpoint])
      | Response status body \<Rightarrow>
          if status = 200 then
            (case body of
               Some (JObj tokens) \<Rightarrow>
                 (let m1 = m\<lparr>access_token := dict_get tokens ''access_token'' JNull\<rparr>;
                      m2 = (case map_of tokens ''refresh_token'' of
                              Some v \<Rightarrow> m1\<lparr>refresh_token := v\<rparr>
                            | None \<Rightarrow> m1)
                  in case as_number (dict_get tokens ''expires_in'' (JInt 3600)) of
                       None \<Rightarrow> (False, m2, [Http_post Token_endpoint])
                     | Some expires_in \<Rightarrow>
                         (True, m2\<lparr>expires_at := Some (expiry_time now expires_in)\<rparr>,
                          [Http_post Token_endpoint]))
             | _ \<Rightarrow> (False, m, [Http_post Token_endpoint]))
          else (False, m, [Http_post Token_endpoint]))"

subsection \<open>get_valid_token\<close>

text \<open>
  \<^verbatim>\<open>self.expires_at and time.time() >= self.expires_at\<close>: a float \<^verbatim>\<open>0.0\<close> is falsy, like
  \<^verbatim>\<open>None\<close>. \<open>now\<close> is the clock read by this test, \<open>now'\<close> the one read inside the refresh.
\<close>

definition expired :: "pyfloat option \<Rightarrow> real \<Rightarrow> bool" where
  "expired e now = (case e of None \<Rightarrow> False | Some t \<Rightarrow> t \<noteq> Fin 0 \<and> reached t now)"

definition get_valid_token ::
  "'a token_manager_scheme \<Rightarrow> real \<Rightarrow> real \<Rightarrow> http_result \<Rightarrow> json \<times> 'a token_manager_scheme \<times> effect list" where
  "get_valid_token m now now' resp =
     (if \<not> truthy (access_token m) then (JNull, m, [])
      else if expired (expires_at m) now then
        (let (ok, m', tr) = refresh_access_token m now' resp
         in if \<not> ok then (JNull, m', Call_refresh # tr)
            else (access_token m', m', Call_refresh # tr))
      else (access_token m, m, []))"

subsection \<open>_clear_tokens\<close>

definition jira_clear_tokens :: "jira_manager \<Rightarrow> jira_manager" where
  "jira_clear_tokens m =
     m\<lparr>access_token := JNull, refresh_token := JNull, cloud_id := JNull, expires_at := None\<rparr>"

definition ado_clear_tokens :: "ado_manager \<Rightarrow> ado_manager" where
  "ado_clear_tokens m =
     m\<lparr>access_token := JNull, refresh_token := JNull, expires_at := None, ado_url := JNull,
       organizations := JNull, selected_organization := JNull\<rparr>"

section \<open>The OAuth callback listener\<close>

text \<open>
  \<^verbatim>\<open>request.args.get('code')\<close> and \<^verbatim>\<open>request.args.get('error')\<close>: a string, or \<^verbatim>\<open>None\<close>
  when the query has no such parameter. An empty string is falsy.
\<close>

record callback_args =
  arg_code :: "string option"
  arg_error :: "string option"

definition arg_truthy :: "string option \<Rightarrow> bool" where
  "arg_truthy a = (case a of None \<Rightarrow> False | Some s \<Rightarrow> s \<noteq> [])"

text \<open>
  Jira's handler calls the exchange without a \<^verbatim>\<open>try\<close> of its own: an exception of the
  exchange would leave the handler before \<^verbatim>\<open>auth_complete.set()\<close>.
\<close>

definition jira_oauth_callback ::
  "jira_manager \<Rightarrow> callback_args \<Rightarrow> real \<Rightarrow> http_result \<Rightarrow> http_result
     \<Rightarrow> string outcome \<times> jira_manager \<times> effect list" where
  "jira_oauth_callback m args now token_resp resources_resp =
     (if arg_truthy (arg_error args)
      then (Returns ''OAuth failed. Please check the logs.'',
            m\<lparr>auth_complete := True\<rparr>, [Set_auth_complete])
      else if arg_truthy (arg_code args) then
        (case jira_exchange_code_for_tokens m now token_resp resources_resp of
           (Returns success, m', tr) \<Rightarrow>
             if success
             then (Returns ''OAuth successful! You can close this window.'',
                   m'\<lparr>auth_complete := True\<rparr>, tr @ [Set_auth_complete])
             else (Returns ''OAuth failed during token exchange. Please check the logs.'',
                   m'\<lparr>auth_complete := True\<rparr>, tr @ [Set_auth_complete])
         | (Raises e, m', tr) \<Rightarrow> (Raises e, m', tr))
      else (Returns ''Invalid callback'', m, []))"

text \<open>ADO's handler wraps the exchange in \<^verbatim>\<open>try ... except Exception\<close> and sets the event there too.\<close>

definition ado_oauth_callback ::
  "(json \<Rightarrow> string) \<Rightarrow> ado_manager \<Rightarrow> callback_args \<Rightarrow> real \<Rightarrow> http_result \<Rightarrow> http_result
     \<Rightarrow> http_result \<Rightarrow> string outcome \<times> ado_manager \<times> effect list" where
  "ado_oauth_callback str_of m args now token_resp profile_resp accounts_resp =
     (if arg_truthy (arg_error args)
      then (Returns ''OAuth failed. Please check the logs.'',
            m\<lparr>auth_complete := True\<rparr>, [Set_auth_complete])
      else if arg_truthy (arg_code args) then
        (case ado_exchange_code_for_tokens str_of m now token_resp profile_resp accounts_resp of
           (Returns success, m', tr) \<Rightarrow>
             if success
             then (Returns ''OAuth successful! You can close this window.'',
                   m'\<lparr>auth_complete := True\<rparr>, tr @ [Set_auth_complete])
             else (Returns ''OAuth failed during token exchange. Please check the logs.'',
                   m'\<lparr>auth_complete := True\<rparr>, tr @ [Set_auth_complete])
         | (Raises e, m', tr) \<Rightarrow>
             (Returns (''OAuth failed with error: '' @ e),
              m'\<lparr>auth_complete := True\<rparr>, tr @ [Set_auth_complete]))
      else (Returns ''Invalid callback'', m, []))"

subsection \<open>start_oauth_flow and wait_for_authorization\<close>

text \<open>
  \<^verbatim>\<open>_start_oauth_server\<close> returns at once when the listener thread is alive and starts it
  otherwise; then the browser is opened (a failure to open is logged and ignored).
\<close>

definition start_oauth_flow :: "'a token_manager_scheme \<Rightarrow> 'a token_manager_scheme \<times> effect list" where
  "start_oauth_flow m =
     (if oauth_thread_alive m then (m, [Open_browser])
      else (m\<lparr>oauth_thread_alive := True\<rparr>, [Start_listener, Open_browser]))"

text \<open>
  \<^verbatim>\<open>self.auth_complete.wait(timeout)\<close>. An event that is already set makes \<^verbatim>\<open>wait\<close> return
  True at once. Otherwise the caller blocks while the listener thread serves the callback
  requests that arrive within the timeout, one after the other (\<open>deliver\<close> is the handler);
  \<^verbatim>\<open>wait\<close> returns True as soon as one of them has set the event and False when the
  window closes with the event unset.
\<close>

fun wait_for_authorization ::
  "('a token_manager_scheme \<Rightarrow> 'r \<Rightarrow> 'a token_manager_scheme \<times> effect list)
     \<Rightarrow> 'a token_manager_scheme \<Rightarrow> 'r list \<Rightarrow> bool \<times> 'a token_manager_scheme \<times> effect list" where
  "wait_for_authorization deliver m [] = (auth_complete m, m, [])"
| "wait_for_authorization deliver m (r # rs) =
     (if auth_complete m then (True, m, [])
      else (let (m', tr) = deliver m r;
                (ok, m'', tr') = wait_for_authorization deliver m' rs
            in (ok, m'', tr @ tr')))"

type_synonym jira_arrival = "callback_args \<times> real \<times> http_result \<times> http_result"

type_synonym ado_arrival = "callback_args \<times> real \<times> http_result \<times> http_result \<times> http_result"

definition jira_deliver :: "jira_manager \<Rightarrow> jira_arrival \<Rightarrow> jira_manager \<times> effect list" where
  "jira_deliver m a =
     (case a of (args, now, token_resp, resources_resp) \<Rightarrow>
        (case jira_oauth_callback m args now token_resp resources_resp of
           (body, m', tr) \<Rightarrow> (m', tr)))"

definition ado_deliver :: "(json \<Rightarrow> string) \<Rightarrow> ado_manager \<Rightarrow> ado_arrival \<Rightarrow> ado_manager \<times> effect list" where
  "ado_deliver str_of m a =
     (case a of (args, now, token_resp, profile_resp, accounts_resp) \<Rightarrow>
        (case ado_oauth_callback str_of m args now token_resp profile_resp accounts_resp of
           (body, m', tr) \<Rightarrow> (m', tr)))"

section \<open>The servers' session state\<close>

record 'm server =
  oauth_manager :: "'m option"
  auth_method :: "string option"
  session_authenticated :: bool

text \<open>\<^verbatim>\<open>JiraMCPServer._authenticate_if_needed\<close> (timeout 300 s).\<close>

definition jira_authenticate_if_needed ::
  "jira_manager server \<Rightarrow> jira_arrival list \<Rightarrow> bool \<times> jira_manager server \<times> effect list" where
  "jira_authenticate_if_needed s arrivals =
     (if session_authenticated s then (True, s, [])
      else
        (case oauth_manager s of
           None \<Rightarrow> (False, s, [])
         | Some m \<Rightarrow>
             (let (m1, tr1) = start_oauth_flow m;
                  (signalled, m2, tr2) = wait_for_authorization jira_deliver m1 arrivals
              in if signalled then
                   (if jira_is_authenticated m2
                    then (True, s\<lparr>oauth_manager := Some m2, auth_method := Some ''oauth'',
                                   session_authenticated := True\<rparr>, tr1 @ tr2)
                    else (False, s\<lparr>oauth_manager := Some m2\<rparr>, tr1 @ tr2))
                 else (False, s\<lparr>oauth_manager := Some m2\<rparr>, tr1 @ tr2))))"

text \<open>\<^verbatim>\<open>ADOMCPServer._authenticate_if_needed\<close> (timeout 120 s).\<close>

definition ado_authenticate_if_needed ::
  "(json \<Rightarrow> string) \<Rightarrow> ado_manager server \<Rightarrow> ado_arrival list
     \<Rightarrow> bool \<times> ado_manager server \<times> effect list" where
  "ado_authenticate_if_needed str_of s arrivals =
     (if session_authenticated s then (True, s, [])
      else
        (case oauth_manager s of
           None \<Rightarrow> (False, s, [])
         | Some m \<Rightarrow>
             (let (m1, tr1) = start_oauth_flow m;
                  (signalled, m2, tr2) = wait_for_authorization (ado_deliver str_of) m1 arrivals
              in if signalled then
                   (if ado_is_authenticated m2
                    then (True, s\<lparr>oauth_manager := Some m2, auth_method := Some ''oauth'',
                                   session_authenticated := True\<rparr>, tr1 @ tr2)
                    else (False, s\<lparr>oauth_manager := Some m2\<rparr>, tr1 @ tr2))
                 else (False, s\<lparr>oauth_manager := Some m2\<rparr>, tr1 @ tr2))))"

text \<open>\<^verbatim>\<open>clear_session\<close>: the same text in both servers, over the server's own \<^verbatim>\<open>_clear_tokens\<close>.\<close>

definition clear_session :: "('m \<Rightarrow> 'm) \<Rightarrow> 'm server \<Rightarrow> 'm server" where
  "clear_session clear_tokens s =
     (let s1 = (case oauth_manager s of
                  Some m \<Rightarrow> s\<lparr>oauth_manager := Some (clear_tokens m)\<rparr>
                | None \<Rightarrow> s)
      in s1\<lparr>session_authenticated := False, auth_method := None\<rparr>)"

definition jira_clear_session :: "jira_manager server \<Rightarrow> jira_manager server" where
  "jira_clear_session = clear_session jira_clear_tokens"

definition ado_clear_session :: "ado_manager server \<Rightarrow> ado_manager server" where
  "ado_clear_session = clear_session ado_clear_tokens"

section \<open>The dispatcher\<close>

text \<open>
  A line read from stdin is modelled by what \<^verbatim>\<open>json.loads(request_line.strip())\<close> makes of
  it: the parsed value, or the message of the exception it raises.
\<close>

datatype line = Unparseable string | Parsed json

definition response :: "json \<Rightarrow> json \<Rightarrow> json" where
  "response request_id result =
     JObj [(''jsonrpc'', JStr ''2.0''), (''id'', request_id), (''result'', result)]"

definition internal_error :: "json \<Rightarrow> string \<Rightarrow> json" where
  "internal_error request_id msg =
     JObj [(''jsonrpc'', JStr ''2.0''), (''id'', request_id),
           (''error'', JObj [(''code'', JInt (- 32603)),
                             (''message'', JStr (''Internal error: '' @ msg))])]"

definition method_not_found :: "(json \<Rightarrow> string) \<Rightarrow> json \<Rightarrow> json" where
  "method_not_found str_of method =
     JObj [(''error'', JObj [(''code'', JInt (- 32601)),
                             (''message'', JStr (''Method not found: '' @ str_of method))])]"

text \<open>The message of the AttributeError of \<^verbatim>\<open>request_data.get\<close> on a value that is no dict.\<close>

definition attribute_error :: "json \<Rightarrow> string" where
  "attribute_error v =
     [CHR 0x27] @ type_name v @ [CHR 0x27] @ '' object has no attribute ''
       @ [CHR 0x27] @ ''get'' @ [CHR 0x27]"

definition handle_initialize :: "string \<Rightarrow> json" where
  "handle_initialize server_name =
     JObj [(''protocolVersion'', JStr ''2024-11-05''),
           (''capabilities'', JObj [(''tools'', JObj [])]),
           (''serverInfo'', JObj [(''name'', JStr server_name), (''version'', JStr ''1.0.0'')])]"

text \<open>
  \<^verbatim>\<open>handle_request\<close> of \<^verbatim>\<open>jira_mcp_stdio.py\<close>. The tool catalog \<open>tools_list\<close> and the tool
  handlers \<open>tools_call\<close> (which may change the server and may raise) are parameters.

  When the \<^verbatim>\<open>try\<close> body raises, the handler evaluates
  \<^verbatim>\<open>request_data.get("id") if request_data else None\<close>: on a parsed value that is truthy and
  no dict this raises again, and the exception leaves \<^verbatim>\<open>handle_request\<close>.
\<close>

definition jira_handle_request ::
  "(json \<Rightarrow> string) \<Rightarrow> json \<Rightarrow> ('s \<Rightarrow> json \<Rightarrow> json outcome \<times> 's) \<Rightarrow> 's \<Rightarrow> line
     \<Rightarrow> json option outcome \<times> 's" where
  "jira_handle_request str_of tools_list tools_call server request_line =
     (case request_line of
        Unparseable e \<Rightarrow> (Returns (Some (internal_error JNull e)), server)
      | Parsed request_data \<Rightarrow>
          (case request_data of
             JObj req \<Rightarrow>
               (let method = dict_get req ''method'' JNull;
                    params = dict_get req ''params'' (JObj []);
                    request_id = dict_get req ''id'' JNull
                in if method = JStr ''initialize''
                   then (Returns (Some (response request_id (handle_initialize ''jira-mcp-server''))),
                         server)
                   else if method = JStr ''notifications/initialized''
                   then (Returns None, server)
                   else if method = JStr ''tools/list''
                   then (Returns (Some (response request_id tools_list)), server)
                   else if method = JStr ''tools/call''
                   then (case tools_call server params of
                           (Returns result, server') \<Rightarrow>
                             (Returns (Some (response request_id result)), server')
                         | (Raises e, server') \<Rightarrow>
                             (Returns (Some (internal_error request_id e)), server'))
                   else (Returns (Some (response request_id (method_not_found str_of method))),
                         server))
           | _ \<Rightarrow>
               if truthy request_data
               then (Raises (attribute_error request_data), server)
               else (Returns (Some (internal_error JNull (attribute_error request_data))),
                     server)))"

text \<open>\<^verbatim>\<open>handle_request\<close> of \<^verbatim>\<open>ado_mcp_stdio.py\<close>: the same, without the notification branch.\<close>

definition ado_handle_request ::
  "(json \<Rightarrow> string) \<Rightarrow> json \<Rightarrow> ('s \<Rightarrow> json \<Rightarrow> json outcome \<times> 's) \<Rightarrow> 's \<Rightarrow> line
     \<Rightarrow> json option outcome \<times> 's" where
  "ado_handle_request str_of tools_list tools_call server request_line =
     (case request_line of
        Unparseable e \<Rightarrow> (Returns (Some (internal_error JNull e)), server)
      | Parsed request_data \<Rightarrow>
          (case request_data of
             JObj req \<Rightarrow>
               (let method = dict_get req ''method'' JNull;
                    params = dict_get req ''params'' (JObj []);
                    request_id = dict_get req ''id'' JNull
                in if method = JStr ''initialize''
                   then (Returns (Some (response request_id (handle_initialize ''ado-mcp-server''))),
                         server)
                   else if method = JStr ''tools/list''
                   then (Returns (Some (response request_id tools_list)), server)
                   else if method = JStr ''tools/call''
                   then (case tools_call server params of
                           (Returns result, server') \<Rightarrow>
                             (Returns (Some (response request_id result)), server')
                         | (Raises e, server') \<Rightarrow>
                             (Returns (Some (internal_error request_id e)), server'))
                   else (Returns (Some (response request_id (method_not_found str_of method))),
                         server))
           | _ \<Rightarrow>
               if truthy request_data
               then (Raises (attribute_error request_data), server)
               else (Returns (Some (internal_error JNull (attribute_error request_data))),
                     server)))"

text \<open>
  The loop of \<^verbatim>\<open>main\<close> over the lines that stdin delivers before end of file. A response
  is printed when it is truthy. An exception out of \<^verbatim>\<open>handle_request\<close> is caught outside
  the \<^verbatim>\<open>while\<close>, so it ends the loop: nothing more is read or printed.
\<close>

fun main_loop ::
  "('s \<Rightarrow> line \<Rightarrow> json option outcome \<times> 's) \<Rightarrow> 's \<Rightarrow> line list \<Rightarrow> json list \<times> 's" where
  "main_loop handle server [] = ([], server)"
| "main_loop handle server (request_line # rest) =
     (case handle server request_line of
        (Raises e, server') \<Rightarrow> ([], server')
      | (Returns r, server') \<Rightarrow>
          (let (out, server'') = main_loop handle server' rest
           in ((case r of
                  None \<Rightarrow> []
                | Some resp \<Rightarrow> if truthy resp then [resp] else []) @ out, server'')))"

text \<open>
  Vocabulary for statements about the loop: the lines on which \<^verbatim>\<open>handle_request\<close> returns
  rather than raises, the \<^verbatim>\<open>notifications/initialized\<close> lines, and the \<^verbatim>\<open>id\<close> of a line and
  of a response.
\<close>

definition returns_on :: "line \<Rightarrow> bool" where
  "returns_on request_line =
     (case request_line of
        Unparseable e \<Rightarrow> True
      | Parsed (JObj req) \<Rightarrow> True
      | Parsed v \<Rightarrow> \<not> truthy v)"

definition is_initialized_notification :: "line \<Rightarrow> bool" where
  "is_initialized_notification request_line =
     (case request_line of
        Parsed (JObj req) \<Rightarrow> dict_get req ''method'' JNull = JStr ''notifications/initialized''
      | _ \<Rightarrow> False)"

definition line_id :: "line \<Rightarrow> json" where
  "line_id request_line =
     (case request_line of Parsed (JObj req) \<Rightarrow> dict_get req ''id'' JNull | _ \<Rightarrow> JNull)"

definition response_id :: "json \<Rightarrow> json" where
  "response_id resp = (case resp of JObj kvs \<Rightarrow> dict_get kvs ''id'' JNull | _ \<Rightarrow> JNull)"

section \<open>Histories of calls\<close>

text \<open>
  The calls that reach a token manager during the life of the process, with what the
  outside world answers to each; a history is a list of them, applied in order.
\<close>

datatype jira_call =
    J_clear_tokens
  | J_start_oauth_flow
  | J_oauth_callback callback_args real http_result http_result
  | J_exchange_code_for_tokens real http_result http_result
  | J_get_cloud_id http_result
  | J_refresh_access_token real http_result
  | J_get_valid_token real real http_result
  | J_wait_for_authorization "jira_arrival list"

fun jira_manager_call :: "jira_call \<Rightarrow> jira_manager \<Rightarrow> jira_manager" where
  "jira_manager_call J_clear_tokens m = jira_clear_tokens m"
| "jira_manager_call J_start_oauth_flow m = fst (start_oauth_flow m)"
| "jira_manager_call (J_oauth_callback args now t r) m = fst (snd (jira_oauth_callback m args now t r))"
| "jira_manager_call (J_exchange_code_for_tokens now t r) m =
     fst (snd (jira_exchange_code_for_tokens m now t r))"
| "jira_manager_call (J_get_cloud_id r) m = fst (snd (get_cloud_id m r))"
| "jira_manager_call (J_refresh_access_token now t) m = fst (snd (refresh_access_token m now t))"
| "jira_manager_call (J_get_valid_token now now' t) m = fst (snd (get_valid_token m now now' t))"
| "jira_manager_call (J_wait_for_authorization arrivals) m =
     fst (snd (wait_for_authorization jira_deliver m arrivals))"

datatype ado_call =
    A_clear_tokens
  | A_start_oauth_flow
  | A_oauth_callback callback_args real http_result http_result http_result
  | A_exchange_code_for_tokens real http_result http_result http_result
  | A_get_ado_organizations http_result http_result
  | A_select_organization string http_result
  | A_create_ado_organization string http_result http_result
  | A_refresh_access_token real http_result
  | A_get_valid_token real real http_result
  | A_wait_for_authorization "ado_arrival list"

fun ado_manager_call :: "(json \<Rightarrow> string) \<Rightarrow> ado_call \<Rightarrow> ado_manager \<Rightarrow> ado_manager" where
  "ado_manager_call str_of A_clear_tokens m = ado_clear_tokens m"
| "ado_manager_call str_of A_start_oauth_flow m = fst (start_oauth_flow m)"
| "ado_manager_call str_of (A_oauth_callback args now t p a) m =
     fst (snd (ado_oauth_callback str_of m args now t p a))"
| "ado_manager_call str_of (A_exchange_code_for_tokens now t p a) m =
     fst (snd (ado_exchange_code_for_tokens str_of m now t p a))"
| "ado_manager_call str_of (A_get_ado_organizations p a) m =
     fst (snd (get_ado_organizations str_of m p a))"
| "ado_manager_call str_of (A_select_organization org_name v) m =
     fst (snd (select_organization m org_name v))"
| "ado_manager_call str_of (A_create_ado_organization org_name c v) m =
     fst (snd (create_ado_organization m org_name c v))"
| "ado_manager_call str_of (A_refresh_access_token now t) m =
     fst (snd (refresh_access_token m now t))"
| "ado_manager_call str_of (A_get_valid_token now now' t) m =
     fst (snd (get_valid_token m now now' t))"
| "ado_manager_call str_of (A_wait_for_authorization arrivals) m =
     fst (snd (wait_for_authorization (ado_deliver str_of) m arrivals))"

text \<open>The calls that reach a server: one on its manager, or one of its own session methods.\<close>

datatype ('c, 'r) server_call =
    On_manager 'c
  | Clear_session
  | Authenticate_if_needed "'r list"

fun jira_server_call ::
  "(jira_call, jira_arrival) server_call \<Rightarrow> jira_manager server \<Rightarrow> jira_manager server" where
  "jira_server_call (On_manager c) s =
     (case oauth_manager s of
        Some m \<Rightarrow> s\<lparr>oauth_manager := Some (jira_manager_call c m)\<rparr>
      | None \<Rightarrow> s)"
| "jira_server_call Clear_session s = jira_clear_session s"
| "jira_server_call (Authenticate_if_needed arrivals) s =
     fst (snd (jira_authenticate_if_needed s arrivals))"

fun ado_server_call ::
  "(json \<Rightarrow> string) \<Rightarrow> (ado_call, ado_arrival) server_call \<Rightarrow> ado_manager server
     \<Rightarrow> ado_manager server" where
  "ado_server_call str_of (On_manager c) s =
     (case oauth_manager s of
        Some m \<Rightarrow> s\<lparr>oauth_manager := Some (ado_manager_call str_of c m)\<rparr>
      | None \<Rightarrow> s)"
| "ado_server_call str_of Clear_session s = ado_clear_session s"
| "ado_server_call str_of (Authenticate_if_needed arrivals) s =
     fst (snd (ado_authenticate_if_needed str_of s arrivals))"

text \<open>The completion event of the server's manager is set.\<close>

definition event_set :: "'a token_manager_scheme server \<Rightarrow> bool" where
  "event_set s = (case oauth_manager s of Some m \<Rightarrow> auth_complete m | None \<Rightarrow> False)"

section \<open>Properties\<close>

subsection \<open>Readiness\<close>

lemma truthy_py_and: "truthy (py_and a b) = (truthy a \<and> truthy b)"
  by (simp add: py_and_def)

text \<open>
  C1 (as stated): for every state of either token manager, is_authenticated() is true
  if and only if access_token is present. It fails for the Jira manager, which also asks
  for the cloud id: a manager holding a token and no cloud id is not authenticated.
\<close>

theorem jira_is_authenticated_needs_cloud_id:
  "\<not> (jira_is_authenticated (jira_init\<lparr>access_token := JStr ''tok''\<rparr>)
        \<longleftrightarrow> truthy (access_token (jira_init\<lparr>access_token := JStr ''tok''\<rparr>)))"
  by (simp add: jira_is_authenticated_def jira_init_def py_and_def)

text \<open>
  C1 (amended): the ADO manager is authenticated exactly when its access token is truthy
  (neither None nor empty), whatever its organization fields hold; the Jira manager is
  authenticated exactly when both its access token and its cloud id are truthy.
\<close>

theorem is_authenticated_characterisation:
  "(ado_is_authenticated m \<longleftrightarrow> truthy (access_token m))
   \<and> ado_is_authenticated (m\<lparr>ado_url := u, organizations := os, selected_organization := so\<rparr>)
       = ado_is_authenticated m
   \<and> (jira_is_authenticated j \<longleftrightarrow> truthy (access_token j) \<and> truthy (cloud_id j))"
  by (simp add: ado_is_authenticated_def jira_is_authenticated_def truthy_py_and)

subsection \<open>What the resource-context bootstrap leaves alone\<close>

lemma get_cloud_id_frame:
  "get_cloud_id m r = (b, m', tr) \<Longrightarrow>
     expires_at m' = expires_at m \<and> auth_complete m' = auth_complete m
     \<and> Set_auth_complete \<notin> set tr"
  by (auto simp: get_cloud_id_def
      split: if_splits http_result.splits option.splits json.splits list.splits)

lemma get_ado_organizations_frame:
  "get_ado_organizations str_of m p a = (b, m', tr) \<Longrightarrow>
     expires_at m' = expires_at m \<and> auth_complete m' = auth_complete m
     \<and> Set_auth_complete \<notin> set tr"
  by (auto simp: get_ado_organizations_def Let_def
      split: if_splits http_result.splits option.splits json.splits prod.splits)

subsection \<open>Token exchange\<close>

text \<open>
  C5: whenever _exchange_code_for_tokens receives a non-200 HTTP status or a transport
  exception, it returns False and leaves the whole manager (access_token, refresh_token,
  expires_at and the resource context fields) exactly as it was; the only effect is the
  POST to the token endpoint.
\<close>

theorem exchange_failure_keeps_state:
  "(status \<noteq> 200 \<longrightarrow>
      jira_exchange_code_for_tokens mj now (Response status body) resources_resp
        = (Returns False, mj, [Http_post Token_endpoint])
    \<and> ado_exchange_code_for_tokens str_of ma now (Response status body) profile_resp accounts_resp
        = (Returns False, ma, [Http_post Token_endpoint]))
   \<and> jira_exchange_code_for_tokens mj now Transport_error resources_resp
        = (Returns False, mj, [Http_post Token_endpoint])
   \<and> ado_exchange_code_for_tokens str_of ma now Transport_error profile_resp accounts_resp
        = (Returns False, ma, [Http_post Token_endpoint])"
  by (simp add: jira_exchange_code_for_tokens_def ado_exchange_code_for_tokens_def)

text \<open>
  C5, at a concrete input: a 503 answer to a manager that holds tokens from an earlier
  exchange.
\<close>

theorem exchange_failure_keeps_state_witness:
  "(503::int) \<noteq> 200
   \<and> jira_exchange_code_for_tokens
       (jira_init\<lparr>access_token := JStr ''a0'', refresh_token := JStr ''r0'',
                  expires_at := Some (Fin 900), cloud_id := JStr ''c0''\<rparr>)
       1000 (Response 503 None) Transport_error
     = (Returns False,
        jira_init\<lparr>access_token := JStr ''a0'', refresh_token := JStr ''r0'',
                  expires_at := Some (Fin 900), cloud_id := JStr ''c0''\<rparr>,
        [Http_post Token_endpoint])
   \<and> ado_exchange_code_for_tokens (\<lambda>v. ''?'')
       (ado_init\<lparr>access_token := JStr ''a0'', refresh_token := JStr ''r0'',
                 expires_at := Some (Fin 900), ado_url := JStr ''https://dev.azure.com/o''\<rparr>)
       1000 (Response 503 None) Transport_error Transport_error
     = (Returns False,
        ado_init\<lparr>access_token := JStr ''a0'', refresh_token := JStr ''r0'',
                 expires_at := Some (Fin 900), ado_url := JStr ''https://dev.azure.com/o''\<rparr>,
        [Http_post Token_endpoint])"
  using exchange_failure_keeps_state [where status = 503 and body = None and now = 1000
      and mj = "jira_init\<lparr>access_token := JStr ''a0'', refresh_token := JStr ''r0'',
                  expires_at := Some (Fin 900), cloud_id := JStr ''c0''\<rparr>"
      and ma = "ado_init\<lparr>access_token := JStr ''a0'', refresh_token := JStr ''r0'',
                 expires_at := Some (Fin 900), ado_url := JStr ''https://dev.azure.com/o''\<rparr>"
      and resources_resp = Transport_error and profile_resp = Transport_error
      and accounts_resp = Transport_error and str_of = "\<lambda>v. ''?''"]
  by simp






lemma jira_exchange_not_numeric:
  assumes "as_number (dict_get tokens ''expires_in'' (JInt 3600)) = None"
  shows "jira_exchange_code_for_tokens m now (Response 200 (Some (JObj tokens))) rr
           = (Returns False,
              m\<lparr>access_token := dict_get tokens ''access_token'' JNull,
                refresh_token := dict_get tokens ''refresh_token'' JNull\<rparr>,
              [Http_post Token_endpoint])"
  using assms by (simp add: jira_exchange_code_for_tokens_def Let_def)

lemma ado_exchange_not_numeric:
  assumes "as_number (dict_get tokens ''expires_in'' (JInt 3600)) = None"
  shows "ado_exchange_code_for_tokens str_of m now (Response 200 (Some (JObj tokens))) pr ar
           = (Returns False,
              m\<lparr>access_token := dict_get tokens ''access_token'' JNull,
                refresh_token := dict_get tokens ''refresh_token'' JNull\<rparr>,
              [Http_post Token_endpoint])"
  using assms by (simp add: ado_exchange_code_for_tokens_def Let_def)



text \<open>
  The paths beside it: an expires_in that is no number, or an int beyond the float range,
  makes the exchange return False with the two tokens overwritten and expires_at (and, in
  ADO, the organization cache) as before.
\<close>

lemma exchange_on_unusable_expires_in:
  "jira_exchange_code_for_tokens (jira_init\<lparr>expires_at := Some (Fin 900)\<rparr>) 1000
     (Response 200 (Some (JObj [(''access_token'', JStr ''a''), (''expires_in'', JInt (10 ^ 400))])))
     rr
   = (Returns False,
      jira_init\<lparr>expires_at := Some (Fin 900), access_token := JStr ''a''\<rparr>,
      [Http_post Token_endpoint])"
  "ado_exchange_code_for_tokens str_of (ado_init\<lparr>expires_at := Some (Fin 900)\<rparr>) 1000
     (Response 200 (Some (JObj [(''access_token'', JStr ''a''), (''expires_in'', JStr ''3600'')])))
     pr ar
   = (Returns False,
      ado_init\<lparr>expires_at := Some (Fin 900), access_token := JStr ''a''\<rparr>,
      [Http_post Token_endpoint])"
  by (simp_all add: jira_exchange_code_for_tokens_def ado_exchange_code_for_tokens_def
      dict_get_def jira_init_def ado_init_def float_limit_def)

subsection \<open>Refresh\<close>

lemma refresh_trace:
  "refresh_access_token m now resp = (ok, m', tr) \<Longrightarrow>
     (tr = [] \<or> tr = [Http_post Token_endpoint]) \<and> auth_complete m' = auth_complete m"
  by (auto simp: refresh_access_token_def Let_def
      split: if_splits http_result.splits option.splits json.splits)

lemma refresh_success:
  "refresh_access_token m now resp = (True, m', tr) \<Longrightarrow>
     truthy (refresh_token m) \<and>
     (\<exists>tokens x. resp = Response 200 (Some (JObj tokens))
        \<and> as_number (dict_get tokens ''expires_in'' (JInt 3600)) = Some x
        \<and> access_token m' = dict_get tokens ''access_token'' JNull
        \<and> expires_at m' = Some (expiry_time now x))"
  by (auto simp: refresh_access_token_def Let_def simp del: as_number.simps
      split: if_splits http_result.splits option.splits json.splits)

text \<open>
  C7 (as stated): on an HTTP 200 refresh response that omits a refresh_token field, the
  stored refresh token is retained while access_token and expires_at are updated. The
  update of expires_at fails when the response carries an expires_in that float
  arithmetic refuses. Here the provider sends it as the string "3600": the new access
  token is stored, the refresh token is retained, but expires_at stays at 900 and the
  call returns False.
\<close>

theorem refresh_keeps_expires_at_on_string_expires_in:
  "refresh_access_token
     (jira_init\<lparr>access_token := JStr ''old'', refresh_token := JStr ''r0'',
                expires_at := Some (Fin 900)\<rparr>) 1000
     (Response 200 (Some (JObj [(''access_token'', JStr ''new''), (''expires_in'', JStr ''3600'')])))
   = (False,
      jira_init\<lparr>access_token := JStr ''new'', refresh_token := JStr ''r0'',
                expires_at := Some (Fin 900)\<rparr>,
      [Http_post Token_endpoint])"
  by (simp add: refresh_access_token_def jira_init_def dict_get_def)

text \<open>
  C7 (amended): refresh_access_token() called when no refresh token is stored returns
  False without contacting the token endpoint and without modifying any state. On an HTTP
  200 refresh response (a JSON object) that omits a refresh_token field, the stored
  refresh token is retained and access_token is set from the response; when expires_in is
  missing (3600 is taken) or is a number that float arithmetic accepts, expires_at
  becomes now + expires_in - 300 and the call returns True; when expires_in is anything
  else (no number, or an int beyond the float range) the call returns False and
  expires_at is left as it was.
\<close>

theorem refresh_fails_fast_and_retains:
  "(\<not> truthy (refresh_token m) \<longrightarrow> refresh_access_token m now resp = (False, m, []))
   \<and> (truthy (refresh_token m) \<and> map_of tokens ''refresh_token'' = None \<longrightarrow>
       (\<exists>ok m'. refresh_access_token m now (Response 200 (Some (JObj tokens)))
                   = (ok, m', [Http_post Token_endpoint])
          \<and> refresh_token m' = refresh_token m
          \<and> access_token m' = dict_get tokens ''access_token'' JNull
          \<and> (\<forall>x. as_number (dict_get tokens ''expires_in'' (JInt 3600)) = Some x \<longrightarrow>
                 ok \<and> expires_at m' = Some (expiry_time now x))
          \<and> (as_number (dict_get tokens ''expires_in'' (JInt 3600)) = None \<longrightarrow>
                 \<not> ok \<and> expires_at m' = expires_at m)))
   \<and> (\<forall>n. expiry_time now (Fin n) = Fin (now + n - 300))"
  by (auto simp: refresh_access_token_def Let_def simp del: as_number.simps
      split: option.splits)

text \<open>
  C7 (amended), at concrete inputs: a fresh Jira manager (no refresh token); an ADO
  manager whose provider answers with a new access token and 3600 seconds; and the same
  manager when the provider sends an int beyond the float range.
\<close>

theorem refresh_fails_fast_and_retains_witness:
  "\<not> truthy (refresh_token jira_init)
   \<and> refresh_access_token jira_init 1000
        (Response 200 (Some (JObj [(''access_token'', JStr ''new'')])))
       = (False, jira_init, [])
   \<and> truthy (refresh_token (ado_init\<lparr>access_token := JStr ''old'', refresh_token := JStr ''r0'',
                                      expires_at := Some (Fin 900)\<rparr>))
   \<and> map_of [(''access_token'', JStr ''new''), (''expires_in'', JInt 3600)] ''refresh_token'' = None
   \<and> as_number (dict_get [(''access_token'', JStr ''new''), (''expires_in'', JInt 3600)]
                  ''expires_in'' (JInt 3600)) = Some (Fin 3600)
   \<and> (\<exists>m'. refresh_access_token
               (ado_init\<lparr>access_token := JStr ''old'', refresh_token := JStr ''r0'',
                         expires_at := Some (Fin 900)\<rparr>) 1000
               (Response 200 (Some (JObj [(''access_token'', JStr ''new''),
                                          (''expires_in'', JInt 3600)])))
             = (True, m', [Http_post Token_endpoint])
          \<and> refresh_token m' = JStr ''r0'' \<and> access_token m' = JStr ''new''
          \<and> expires_at m' = Some (Fin 4300))
   \<and> map_of [(''access_token'', JStr ''new''), (''expires_in'', JInt (10 ^ 400))] ''refresh_token''
       = None
   \<and> as_number (dict_get [(''access_token'', JStr ''new''), (''expires_in'', JInt (10 ^ 400))]
                  ''expires_in'' (JInt 3600)) = None
   \<and> (\<exists>m'. refresh_access_token
               (ado_init\<lparr>access_token := JStr ''old'', refresh_token := JStr ''r0'',
                         expires_at := Some (Fin 900)\<rparr>) 1000
               (Response 200 (Some (JObj [(''access_token'', JStr ''new''),
                                          (''expires_in'', JInt (10 ^ 400))])))
             = (False, m', [Http_post Token_endpoint])
          \<and> refresh_token m' = JStr ''r0'' \<and> access_token m' = JStr ''new''
          \<and> expires_at m' = Some (Fin 900))"
proof -
  have n: "as_number (dict_get [(''access_token'', JStr ''new''), (''expires_in'', JInt 3600)]
                        ''expires_in'' (JInt 3600)) = Some (Fin 3600)"
    by (simp add: dict_get_def float_limit_def)
  have big: "as_number (dict_get [(''access_token'', JStr ''new''),
                                  (''expires_in'', JInt (10 ^ 400))]
                          ''expires_in'' (JInt 3600)) = None"
    by (simp add: dict_get_def float_limit_def)
  have e: "expiry_time 1000 (Fin 3600) = Fin 4300"
    by simp
  show ?thesis
    using n big e
      refresh_fails_fast_and_retains [where m = jira_init and now = 1000
          and resp = "Response 200 (Some (JObj [(''access_token'', JStr ''new'')]))"]
      refresh_fails_fast_and_retains [where
          m = "ado_init\<lparr>access_token := JStr ''old'', refresh_token := JStr ''r0'',
                        expires_at := Some (Fin 900)\<rparr>"
          and tokens = "[(''access_token'', JStr ''new''), (''expires_in'', JInt 3600)]"
          and now = 1000]
      refresh_fails_fast_and_retains [where
          m = "ado_init\<lparr>access_token := JStr ''old'', refresh_token := JStr ''r0'',
                        expires_at := Some (Fin 900)\<rparr>"
          and tokens = "[(''access_token'', JStr ''new''), (''expires_in'', JInt (10 ^ 400))]"
          and now = 1000]
    by (auto simp: jira_init_def ado_init_def dict_get_def
        simp del: as_number.simps expiry_time.simps)
qed

subsection \<open>get_valid_token\<close>

text \<open>
  C4 (as stated): get_valid_token() never returns a token whose expires_at has passed.
  It fails after a refresh that grants 300 seconds or less: the refreshed token is
  returned without a second look at the clock, although its expires_at is already behind.
  Here the stored token expired at 1000, the check reads the clock at 2000, the refresh
  reads it at 2001 and the provider grants 120 seconds: the new expires_at is 1821.
\<close>

theorem refreshed_token_returned_past_expires_at:
  "get_valid_token (jira_init\<lparr>access_token := JStr ''old'', refresh_token := JStr ''r0'',
                              expires_at := Some (Fin 1000)\<rparr>) 2000 2001
     (Response 200 (Some (JObj [(''access_token'', JStr ''new''), (''expires_in'', JInt 120)])))
   = (JStr ''new'',
      jira_init\<lparr>access_token := JStr ''new'', refresh_token := JStr ''r0'',
                expires_at := Some (Fin 1821)\<rparr>,
      [Call_refresh, Http_post Token_endpoint])
   \<and> expired (Some (Fin 1821)) 2000"
  by (simp add: get_valid_token_def refresh_access_token_def expired_def jira_init_def
      dict_get_def float_limit_def)

text \<open>
  C4 (amended): get_valid_token() never returns the stored token once its expires_at has
  passed. If access_token is falsy (None or empty) it returns None and does nothing. If
  expires_at is set and not zero and the clock is at or past it, it makes exactly one
  refresh_access_token() call, takes over the state and the requests of that call, and
  returns the access token that the call has stored when the call returns True, or None
  when it returns False. A call that returns True has read an HTTP 200 response, stored
  its access token and set expires_at to the refresh time + expires_in - 300; this new
  expires_at is not checked again. Otherwise get_valid_token() returns the stored
  access_token and changes nothing.
\<close>

theorem get_valid_token_behaviour:
  "(\<not> truthy (access_token m) \<longrightarrow> get_valid_token m now now' resp = (JNull, m, []))
   \<and> (truthy (access_token m) \<and> \<not> expired (expires_at m) now \<longrightarrow>
        get_valid_token m now now' resp = (access_token m, m, []))
   \<and> (truthy (access_token m) \<and> expired (expires_at m) now \<longrightarrow>
        (\<exists>ok m' tr. refresh_access_token m now' resp = (ok, m', tr)
           \<and> get_valid_token m now now' resp
               = ((if ok then access_token m' else JNull), m', Call_refresh # tr)
           \<and> count_list (Call_refresh # tr) Call_refresh = 1
           \<and> (ok \<longrightarrow>
                (\<exists>tokens x. resp = Response 200 (Some (JObj tokens))
                   \<and> truthy (refresh_token m)
                   \<and> as_number (dict_get tokens ''expires_in'' (JInt 3600)) = Some x
                   \<and> access_token m' = dict_get tokens ''access_token'' JNull
                   \<and> expires_at m' = Some (expiry_time now' x)))))"
proof (intro conjI impI)
  assume "\<not> truthy (access_token m)"
  then show "get_valid_token m now now' resp = (JNull, m, [])"
    by (simp add: get_valid_token_def)
next
  assume "truthy (access_token m) \<and> \<not> expired (expires_at m) now"
  then show "get_valid_token m now now' resp = (access_token m, m, [])"
    by (simp add: get_valid_token_def)
next
  assume a: "truthy (access_token m) \<and> expired (expires_at m) now"
  obtain ok m' tr where r: "refresh_access_token m now' resp = (ok, m', tr)"
    by (cases "refresh_access_token m now' resp") auto
  have tr: "count_list (Call_refresh # tr) Call_refresh = 1"
    using refresh_trace [OF r] by auto
  have g: "get_valid_token m now now' resp
             = ((if ok then access_token m' else JNull), m', Call_refresh # tr)"
    using a r by (simp add: get_valid_token_def)
  have s: "ok \<longrightarrow>
             (\<exists>tokens x. resp = Response 200 (Some (JObj tokens))
                \<and> truthy (refresh_token m)
                \<and> as_number (dict_get tokens ''expires_in'' (JInt 3600)) = Some x
                \<and> access_token m' = dict_get tokens ''access_token'' JNull
                \<and> expires_at m' = Some (expiry_time now' x))"
    using r refresh_success [of m now' resp m' tr] by (cases ok) auto
  show "\<exists>ok m' tr. refresh_access_token m now' resp = (ok, m', tr)
           \<and> get_valid_token m now now' resp
               = ((if ok then access_token m' else JNull), m', Call_refresh # tr)
           \<and> count_list (Call_refresh # tr) Call_refresh = 1
           \<and> (ok \<longrightarrow>
                (\<exists>tokens x. resp = Response 200 (Some (JObj tokens))
                   \<and> truthy (refresh_token m)
                   \<and> as_number (dict_get tokens ''expires_in'' (JInt 3600)) = Some x
                   \<and> access_token m' = dict_get tokens ''access_token'' JNull
                   \<and> expires_at m' = Some (expiry_time now' x)))"
    using r g tr s by blast
qed

text \<open>
  C4 (amended), at concrete inputs: a manager without a token; one whose token is good
  until 5000, asked at 2000; one whose token expired at 1000, asked at 2000, when the
  provider grants a new token for 3600 seconds, which is returned; and the same manager
  when the provider refuses the refresh with a 400, which gives None.
\<close>

theorem get_valid_token_behaviour_witness:
  "\<not> truthy (access_token ado_init)
   \<and> get_valid_token ado_init 2000 2001 Transport_error = (JNull, ado_init, [])
   \<and> truthy (access_token (ado_init\<lparr>access_token := JStr ''a0'', expires_at := Some (Fin 5000)\<rparr>))
   \<and> \<not> expired (expires_at (ado_init\<lparr>access_token := JStr ''a0'',
                                       expires_at := Some (Fin 5000)\<rparr>)) 2000
   \<and> get_valid_token (ado_init\<lparr>access_token := JStr ''a0'', expires_at := Some (Fin 5000)\<rparr>)
        2000 2001 Transport_error
       = (JStr ''a0'', ado_init\<lparr>access_token := JStr ''a0'', expires_at := Some (Fin 5000)\<rparr>, [])
   \<and> truthy (access_token (ado_init\<lparr>access_token := JStr ''a0'', refresh_token := JStr ''r0'',
                                      expires_at := Some (Fin 1000)\<rparr>))
   \<and> expired (expires_at (ado_init\<lparr>access_token := JStr ''a0'', refresh_token := JStr ''r0'',
                                     expires_at := Some (Fin 1000)\<rparr>)) 2000
   \<and> get_valid_token (ado_init\<lparr>access_token := JStr ''a0'', refresh_token := JStr ''r0'',
                                expires_at := Some (Fin 1000)\<rparr>) 2000 2001
        (Response 200 (Some (JObj [(''access_token'', JStr ''a1''), (''expires_in'', JInt 3600)])))
       = (JStr ''a1'',
          ado_init\<lparr>access_token := JStr ''a1'', refresh_token := JStr ''r0'',
                    expires_at := Some (Fin 5301)\<rparr>,
          [Call_refresh, Http_post Token_endpoint])
   \<and> get_valid_token (ado_init\<lparr>access_token := JStr ''a0'', refresh_token := JStr ''r0'',
                                expires_at := Some (Fin 1000)\<rparr>) 2000 2001 (Response 400 None)
       = (JNull,
          ado_init\<lparr>access_token := JStr ''a0'', refresh_token := JStr ''r0'',
                    expires_at := Some (Fin 1000)\<rparr>,
          [Call_refresh, Http_post Token_endpoint])"
proof -
  have good: "refresh_access_token
                (ado_init\<lparr>access_token := JStr ''a0'', refresh_token := JStr ''r0'',
                          expires_at := Some (Fin 1000)\<rparr>) 2001
                (Response 200 (Some (JObj [(''access_token'', JStr ''a1''),
                                           (''expires_in'', JInt 3600)])))
              = (True,
                 ado_init\<lparr>access_token := JStr ''a1'', refresh_token := JStr ''r0'',
                           expires_at := Some (Fin 5301)\<rparr>,
                 [Http_post Token_endpoint])"
    by (simp add: refresh_access_token_def ado_init_def dict_get_def float_limit_def)
  have refused: "refresh_access_token
                   (ado_init\<lparr>access_token := JStr ''a0'', refresh_token := JStr ''r0'',
                             expires_at := Some (Fin 1000)\<rparr>) 2001 (Response 400 None)
                 = (False,
                    ado_init\<lparr>access_token := JStr ''a0'', refresh_token := JStr ''r0'',
                              expires_at := Some (Fin 1000)\<rparr>,
                    [Http_post Token_endpoint])"
    by (simp add: refresh_access_token_def ado_init_def)
  have stored: "truthy (access_token (ado_init\<lparr>access_token := JStr ''a0'',
                          refresh_token := JStr ''r0'', expires_at := Some (Fin 1000)\<rparr>))"
    and passed: "expired (expires_at (ado_init\<lparr>access_token := JStr ''a0'',
                          refresh_token := JStr ''r0'', expires_at := Some (Fin 1000)\<rparr>)) 2000"
    and fresh: "\<not> expired (expires_at (ado_init\<lparr>access_token := JStr ''a0'',
                          expires_at := Some (Fin 5000)\<rparr>)) 2000"
    by (simp_all add: expired_def)
  show ?thesis
    using good refused stored passed fresh
      get_valid_token_behaviour [where m = ado_init and now = 2000 and now' = 2001
          and resp = Transport_error]
      get_valid_token_behaviour [where
          m = "ado_init\<lparr>access_token := JStr ''a0'', expires_at := Some (Fin 5000)\<rparr>"
          and now = 2000 and now' = 2001 and resp = Transport_error]
      get_valid_token_behaviour [where
          m = "ado_init\<lparr>access_token := JStr ''a0'', refresh_token := JStr ''r0'',
                        expires_at := Some (Fin 1000)\<rparr>"
          and now = 2000 and now' = 2001
          and resp = "Response 200 (Some (JObj [(''access_token'', JStr ''a1''),
                                                (''expires_in'', JInt 3600)]))"]
      get_valid_token_behaviour [where
          m = "ado_init\<lparr>access_token := JStr ''a0'', refresh_token := JStr ''r0'',
                        expires_at := Some (Fin 1000)\<rparr>"
          and now = 2000 and now' = 2001 and resp = "Response 400 None"]
    by (auto simp: ado_init_def)
qed

subsection \<open>clear_session\<close>

text \<open>
  C8: clear_session() succeeds from every server state (the model is a total function
  with no exception branch) and is idempotent: after one call access_token, refresh_token,
  expires_at and the resource context are None and session_authenticated is False, and a
  second call leaves that state unchanged.
\<close>

theorem clear_session_idempotent:
  "jira_clear_session (jira_clear_session sj) = jira_clear_session sj
   \<and> \<not> session_authenticated (jira_clear_session sj)
   \<and> (\<forall>m. oauth_manager sj = Some m \<longrightarrow>
         (\<exists>m'. oauth_manager (jira_clear_session sj) = Some m'
            \<and> access_token m' = JNull \<and> refresh_token m' = JNull \<and> expires_at m' = None
            \<and> cloud_id m' = JNull \<and> \<not> jira_is_authenticated m'))
   \<and> ado_clear_session (ado_clear_session sa) = ado_clear_session sa
   \<and> \<not> session_authenticated (ado_clear_session sa)
   \<and> (\<forall>m. oauth_manager sa = Some m \<longrightarrow>
         (\<exists>m'. oauth_manager (ado_clear_session sa) = Some m'
            \<and> access_token m' = JNull \<and> refresh_token m' = JNull \<and> expires_at m' = None
            \<and> ado_url m' = JNull \<and> organizations m' = JNull
            \<and> selected_organization m' = JNull \<and> \<not> ado_is_authenticated m'))"
  by (cases "oauth_manager sj"; cases "oauth_manager sa")
     (simp_all add: jira_clear_session_def ado_clear_session_def clear_session_def
        jira_clear_tokens_def ado_clear_tokens_def jira_is_authenticated_def
        ado_is_authenticated_def py_and_def)

text \<open>C8, at concrete inputs: two authenticated servers.\<close>

theorem clear_session_idempotent_witness:
  "oauth_manager \<lparr> oauth_manager = Some (jira_init\<lparr>access_token := JStr ''a0'', cloud_id := JStr ''c0''\<rparr>),
                   auth_method = Some ''oauth'', session_authenticated = True \<rparr>
     = Some (jira_init\<lparr>access_token := JStr ''a0'', cloud_id := JStr ''c0''\<rparr>)
   \<and> (\<exists>m'. oauth_manager (jira_clear_session
               \<lparr> oauth_manager = Some (jira_init\<lparr>access_token := JStr ''a0'', cloud_id := JStr ''c0''\<rparr>),
                 auth_method = Some ''oauth'', session_authenticated = True \<rparr>) = Some m'
          \<and> access_token m' = JNull \<and> refresh_token m' = JNull \<and> expires_at m' = None
          \<and> cloud_id m' = JNull \<and> \<not> jira_is_authenticated m')
   \<and> oauth_manager \<lparr> oauth_manager = Some (ado_init\<lparr>access_token := JStr ''a0'', organizations := JArr []\<rparr>),
                     auth_method = Some ''oauth'', session_authenticated = True \<rparr>
     = Some (ado_init\<lparr>access_token := JStr ''a0'', organizations := JArr []\<rparr>)
   \<and> (\<exists>m'. oauth_manager (ado_clear_session
               \<lparr> oauth_manager = Some (ado_init\<lparr>access_token := JStr ''a0'', organizations := JArr []\<rparr>),
                 auth_method = Some ''oauth'', session_authenticated = True \<rparr>) = Some m'
          \<and> access_token m' = JNull \<and> refresh_token m' = JNull \<and> expires_at m' = None
          \<and> ado_url m' = JNull \<and> organizations m' = JNull \<and> selected_organization m' = JNull
          \<and> \<not> ado_is_authenticated m')"
  using clear_session_idempotent [where
      sj = "\<lparr> oauth_manager = Some (jira_init\<lparr>access_token := JStr ''a0'', cloud_id := JStr ''c0''\<rparr>),
              auth_method = Some ''oauth'', session_authenticated = True \<rparr>"
      and sa = "\<lparr> oauth_manager = Some (ado_init\<lparr>access_token := JStr ''a0'', organizations := JArr []\<rparr>),
                 auth_method = Some ''oauth'', session_authenticated = True \<rparr>"]
  by simp

subsection \<open>The callback handler\<close>

lemma jira_exchange_frame:
  "jira_exchange_code_for_tokens m now t r = (res, m', tr) \<Longrightarrow>
     (\<exists>b. res = Returns b) \<and> Set_auth_complete \<notin> set tr \<and> auth_complete m' = auth_complete m"
  by (auto simp: jira_exchange_code_for_tokens_def Let_def
      split: if_splits http_result.splits option.splits json.splits prod.splits
      dest: get_cloud_id_frame)

lemma ado_exchange_frame:
  "ado_exchange_code_for_tokens str_of m now t p a = (res, m', tr) \<Longrightarrow>
     (\<exists>b. res = Returns b) \<and> Set_auth_complete \<notin> set tr \<and> auth_complete m' = auth_complete m"
  by (auto simp: ado_exchange_code_for_tokens_def Let_def
      split: if_splits http_result.splits option.splits json.splits prod.splits
      dest: get_ado_organizations_frame)

lemma jira_callback_code:
  assumes "arg_truthy (arg_code args)"
  shows "\<exists>body m' tr. jira_oauth_callback m args now t r = (Returns body, m', tr)
           \<and> auth_complete m' \<and> count_list tr Set_auth_complete = 1"
proof (cases "arg_truthy (arg_error args)")
  case True
  then show ?thesis by (simp add: jira_oauth_callback_def)
next
  case False
  obtain res m1 tr1 where e: "jira_exchange_code_for_tokens m now t r = (res, m1, tr1)"
    by (cases "jira_exchange_code_for_tokens m now t r") auto
  from jira_exchange_frame [OF e] obtain b where "res = Returns b" "Set_auth_complete \<notin> set tr1"
    by auto
  with e False assms show ?thesis
    by (simp add: jira_oauth_callback_def count_list_0_iff)
qed

lemma ado_callback_code:
  assumes "arg_truthy (arg_code args)"
  shows "\<exists>body m' tr. ado_oauth_callback str_of m args now t p a = (Returns body, m', tr)
           \<and> auth_complete m' \<and> count_list tr Set_auth_complete = 1"
proof (cases "arg_truthy (arg_error args)")
  case True
  then show ?thesis by (simp add: ado_oauth_callback_def)
next
  case False
  obtain res m1 tr1 where e: "ado_exchange_code_for_tokens str_of m now t p a = (res, m1, tr1)"
    by (cases "ado_exchange_code_for_tokens str_of m now t p a") auto
  from ado_exchange_frame [OF e] obtain b where "res = Returns b" "Set_auth_complete \<notin> set tr1"
    by auto
  with e False assms show ?thesis
    by (simp add: ado_oauth_callback_def count_list_0_iff)
qed

text \<open>
  C9: for every single invocation of the OAuth callback handler: a request carrying a
  (non-empty) code parameter sets the completion event exactly once, whatever the token
  endpoint answers (the exchange catches its own exceptions, so it succeeds or fails but
  never raises into the handler); a request carrying a (non-empty) error parameter sets
  the event and attempts no exchange; a request with neither returns "Invalid callback",
  sets nothing and changes nothing.
\<close>

theorem callback_completion_signal:
  "(arg_truthy (arg_code args) \<longrightarrow>
      (\<exists>body m' tr. jira_oauth_callback mj args now t r = (Returns body, m', tr)
         \<and> auth_complete m' \<and> count_list tr Set_auth_complete = 1)
    \<and> (\<exists>body m' tr. ado_oauth_callback str_of ma args now t p a = (Returns body, m', tr)
         \<and> auth_complete m' \<and> count_list tr Set_auth_complete = 1))
   \<and> (arg_truthy (arg_error args) \<longrightarrow>
        jira_oauth_callback mj args now t r
          = (Returns ''OAuth failed. Please check the logs.'', mj\<lparr>auth_complete := True\<rparr>,
             [Set_auth_complete])
      \<and> ado_oauth_callback str_of ma args now t p a
          = (Returns ''OAuth failed. Please check the logs.'', ma\<lparr>auth_complete := True\<rparr>,
             [Set_auth_complete]))
   \<and> (\<not> arg_truthy (arg_code args) \<and> \<not> arg_truthy (arg_error args) \<longrightarrow>
        jira_oauth_callback mj args now t r = (Returns ''Invalid callback'', mj, [])
      \<and> ado_oauth_callback str_of ma args now t p a = (Returns ''Invalid callback'', ma, []))"
  using jira_callback_code [of args mj now t r] ado_callback_code [of args str_of ma now t p a]
  by (simp add: jira_oauth_callback_def ado_oauth_callback_def)

text \<open>
  C9, at concrete inputs: a callback with a code whose exchange is refused with a 400, a
  callback with an error, and a callback with an empty query.
\<close>

theorem callback_completion_signal_witness:
  "arg_truthy (arg_code \<lparr>arg_code = Some ''abc'', arg_error = None\<rparr>)
   \<and> (\<exists>body m' tr. jira_oauth_callback jira_init \<lparr>arg_code = Some ''abc'', arg_error = None\<rparr>
                      1000 (Response 400 None) Transport_error = (Returns body, m', tr)
         \<and> auth_complete m' \<and> count_list tr Set_auth_complete = 1)
   \<and> (\<exists>body m' tr. ado_oauth_callback (\<lambda>v. ''?'') ado_init \<lparr>arg_code = Some ''abc'', arg_error = None\<rparr>
                      1000 (Response 400 None) Transport_error Transport_error = (Returns body, m', tr)
         \<and> auth_complete m' \<and> count_list tr Set_auth_complete = 1)
   \<and> arg_truthy (arg_error \<lparr>arg_code = None, arg_error = Some ''access_denied''\<rparr>)
   \<and> jira_oauth_callback jira_init \<lparr>arg_code = None, arg_error = Some ''access_denied''\<rparr>
        1000 (Response 400 None) Transport_error
       = (Returns ''OAuth failed. Please check the logs.'', jira_init\<lparr>auth_complete := True\<rparr>,
          [Set_auth_complete])
   \<and> \<not> arg_truthy (arg_code \<lparr>arg_code = None, arg_error = None\<rparr>)
   \<and> \<not> arg_truthy (arg_error \<lparr>arg_code = None, arg_error = None\<rparr>)
   \<and> ado_oauth_callback (\<lambda>v. ''?'') ado_init \<lparr>arg_code = None, arg_error = None\<rparr>
        1000 (Response 400 None) Transport_error Transport_error
       = (Returns ''Invalid callback'', ado_init, [])"
  using callback_completion_signal [where args = "\<lparr>arg_code = Some ''abc'', arg_error = None\<rparr>"
          and mj = jira_init and ma = ado_init and now = 1000 and t = "Response 400 None"
          and r = Transport_error and p = Transport_error and a = Transport_error
          and str_of = "\<lambda>v. ''?''"]
        callback_completion_signal [where
          args = "\<lparr>arg_code = None, arg_error = Some ''access_denied''\<rparr>"
          and mj = jira_init and ma = ado_init and now = 1000 and t = "Response 400 None"
          and r = Transport_error and p = Transport_error and a = Transport_error
          and str_of = "\<lambda>v. ''?''"]
        callback_completion_signal [where args = "\<lparr>arg_code = None, arg_error = None\<rparr>"
          and mj = jira_init and ma = ado_init and now = 1000 and t = "Response 400 None"
          and r = Transport_error and p = Transport_error and a = Transport_error
          and str_of = "\<lambda>v. ''?''"]
  by (simp add: arg_truthy_def)

subsection \<open>The completion event is never cleared\<close>

lemma get_valid_token_keeps_event:
  "get_valid_token m now now' resp = (tok, m', tr) \<Longrightarrow> auth_complete m' = auth_complete m"
  by (auto simp: get_valid_token_def Let_def split: if_splits prod.splits dest: refresh_trace)

lemma wait_when_set:
  "auth_complete m \<Longrightarrow> wait_for_authorization deliver m arrivals = (True, m, [])"
  by (cases arrivals) simp_all

lemma start_oauth_flow_keeps_event:
  "auth_complete (fst (start_oauth_flow m)) = auth_complete m"
  by (simp add: start_oauth_flow_def)

lemma jira_callback_keeps_event:
  "auth_complete m \<Longrightarrow> auth_complete (fst (snd (jira_oauth_callback m args now t r)))"
  by (cases "jira_exchange_code_for_tokens m now t r")
     (auto simp: jira_oauth_callback_def split: outcome.splits dest: jira_exchange_frame)

lemma ado_callback_keeps_event:
  "auth_complete m \<Longrightarrow> auth_complete (fst (snd (ado_oauth_callback str_of m args now t p a)))"
  by (cases "ado_exchange_code_for_tokens str_of m now t p a")
     (auto simp: ado_oauth_callback_def split: outcome.splits dest: ado_exchange_frame)

lemma select_organization_keeps_event:
  "select_organization m org_name v = (res, m', tr) \<Longrightarrow> auth_complete m' = auth_complete m"
  by (auto simp: select_organization_def Let_def
      split: prod.splits if_splits json.splits outcome.splits option.splits)

lemma create_ado_organization_keeps_event:
  "create_ado_organization m org_name c v = (res, m', tr) \<Longrightarrow> auth_complete m' = auth_complete m"
  by (auto simp: create_ado_organization_def Let_def
      split: prod.splits if_splits json.splits outcome.splits option.splits http_result.splits
      dest!: select_organization_keeps_event)

lemma jira_manager_call_keeps_event:
  "auth_complete m \<Longrightarrow> auth_complete (jira_manager_call c m)"
proof (cases c)
  case (J_exchange_code_for_tokens now t r)
  then show "auth_complete m \<Longrightarrow> ?thesis"
    using jira_exchange_frame [of m now t r]
    by (cases "jira_exchange_code_for_tokens m now t r") auto
next
  case (J_get_cloud_id r)
  then show "auth_complete m \<Longrightarrow> ?thesis"
    using get_cloud_id_frame [of m r] by (cases "get_cloud_id m r") auto
next
  case (J_refresh_access_token now t)
  then show "auth_complete m \<Longrightarrow> ?thesis"
    using refresh_trace [of m now t] by (cases "refresh_access_token m now t") auto
next
  case (J_get_valid_token now now' t)
  then show "auth_complete m \<Longrightarrow> ?thesis"
    using get_valid_token_keeps_event [of m now now' t]
    by (cases "get_valid_token m now now' t") auto
qed (simp_all add: jira_clear_tokens_def start_oauth_flow_def jira_callback_keeps_event
      wait_when_set)

lemma ado_manager_call_keeps_event:
  "auth_complete m \<Longrightarrow> auth_complete (ado_manager_call str_of c m)"
proof (cases c)
  case (A_exchange_code_for_tokens now t p a)
  then show "auth_complete m \<Longrightarrow> ?thesis"
    using ado_exchange_frame [of str_of m now t p a]
    by (cases "ado_exchange_code_for_tokens str_of m now t p a") auto
next
  case (A_get_ado_organizations p a)
  then show "auth_complete m \<Longrightarrow> ?thesis"
    using get_ado_organizations_frame [of str_of m p a]
    by (cases "get_ado_organizations str_of m p a") auto
next
  case (A_select_organization org_name v)
  then show "auth_complete m \<Longrightarrow> ?thesis"
    using select_organization_keeps_event [of m org_name v]
    by (cases "select_organization m org_name v") auto
next
  case (A_create_ado_organization org_name c' v)
  then show "auth_complete m \<Longrightarrow> ?thesis"
    using create_ado_organization_keeps_event [of m org_name c' v]
    by (cases "create_ado_organization m org_name c' v") auto
next
  case (A_refresh_access_token now t)
  then show "auth_complete m \<Longrightarrow> ?thesis"
    using refresh_trace [of m now t] by (cases "refresh_access_token m now t") auto
next
  case (A_get_valid_token now now' t)
  then show "auth_complete m \<Longrightarrow> ?thesis"
    using get_valid_token_keeps_event [of m now now' t]
    by (cases "get_valid_token m now now' t") auto
qed (simp_all add: ado_clear_tokens_def start_oauth_flow_def ado_callback_keeps_event
      wait_when_set)

lemma jira_authenticate_when_set:
  assumes "event_set s"
  shows "jira_authenticate_if_needed s arrivals = jira_authenticate_if_needed s []
         \<and> event_set (fst (snd (jira_authenticate_if_needed s arrivals)))"
proof (cases "oauth_manager s")
  case None
  with assms show ?thesis by (simp add: event_set_def)
next
  case (Some m)
  with assms have e: "auth_complete (fst (start_oauth_flow m))"
    by (simp add: event_set_def start_oauth_flow_keeps_event)
  then have w: "wait_for_authorization jira_deliver (fst (start_oauth_flow m)) as
                  = (True, fst (start_oauth_flow m), [])" for as
    by (rule wait_when_set)
  show ?thesis
    using Some assms w [of arrivals] w [of "[]"] e
    by (cases "start_oauth_flow m")
       (auto simp: jira_authenticate_if_needed_def event_set_def
          simp del: wait_for_authorization.simps)
qed

lemma ado_authenticate_when_set:
  assumes "event_set s"
  shows "ado_authenticate_if_needed str_of s arrivals = ado_authenticate_if_needed str_of s []
         \<and> event_set (fst (snd (ado_authenticate_if_needed str_of s arrivals)))"
proof (cases "oauth_manager s")
  case None
  with assms show ?thesis by (simp add: event_set_def)
next
  case (Some m)
  with assms have e: "auth_complete (fst (start_oauth_flow m))"
    by (simp add: event_set_def start_oauth_flow_keeps_event)
  then have w: "wait_for_authorization (ado_deliver str_of) (fst (start_oauth_flow m)) as
                  = (True, fst (start_oauth_flow m), [])" for as
    by (rule wait_when_set)
  show ?thesis
    using Some assms w [of arrivals] w [of "[]"] e
    by (cases "start_oauth_flow m")
       (auto simp: ado_authenticate_if_needed_def event_set_def
          simp del: wait_for_authorization.simps)
qed

lemma jira_server_call_keeps_event:
  "event_set s \<Longrightarrow> event_set (jira_server_call c s)"
proof (cases c)
  case (On_manager x)
  then show "event_set s \<Longrightarrow> ?thesis"
    by (auto simp: event_set_def jira_manager_call_keeps_event split: option.splits)
next
  case Clear_session
  then show "event_set s \<Longrightarrow> ?thesis"
    by (auto simp: event_set_def jira_clear_session_def clear_session_def jira_clear_tokens_def
        split: option.splits)
next
  case (Authenticate_if_needed arrivals)
  then show "event_set s \<Longrightarrow> ?thesis"
    by (simp add: conjunct2 [OF jira_authenticate_when_set])
qed

lemma ado_server_call_keeps_event:
  "event_set s \<Longrightarrow> event_set (ado_server_call str_of c s)"
proof (cases c)
  case (On_manager x)
  then show "event_set s \<Longrightarrow> ?thesis"
    by (auto simp: event_set_def ado_manager_call_keeps_event split: option.splits)
next
  case Clear_session
  then show "event_set s \<Longrightarrow> ?thesis"
    by (auto simp: event_set_def ado_clear_session_def clear_session_def ado_clear_tokens_def
        split: option.splits)
next
  case (Authenticate_if_needed arrivals)
  then show "event_set s \<Longrightarrow> ?thesis"
    by (simp add: conjunct2 [OF ado_authenticate_when_set])
qed

lemma jira_history_keeps_event:
  "event_set s \<Longrightarrow> event_set (fold jira_server_call cs s)"
  by (induction cs arbitrary: s) (simp_all add: jira_server_call_keeps_event)

lemma ado_history_keeps_event:
  "event_set s \<Longrightarrow> event_set (fold (ado_server_call str_of) cs s)"
  by (induction cs arbitrary: s) (simp_all add: ado_server_call_keeps_event)

lemma wait_on_server_when_set:
  "event_set s \<Longrightarrow> oauth_manager s = Some m \<Longrightarrow>
     wait_for_authorization deliver m arrivals = (True, m, [])"
  by (simp add: event_set_def wait_when_set)

text \<open>
  C10: once the completion event has been set, no call clears it: after any history of
  calls on the manager (_clear_tokens, start_oauth_flow, the callback handler, the token
  exchange, the resource bootstrap, organization selection and creation, refresh,
  get_valid_token, a wait) and on the server (clear_session, _authenticate_if_needed) it
  is still set. So wait_for_authorization
  returns True at once, without serving a callback, and the outcome of every later
  _authenticate_if_needed is the same whatever callbacks would have arrived during its
  wait.
\<close>

theorem auth_complete_is_never_cleared:
  "(event_set sj \<longrightarrow>
      event_set (fold jira_server_call cj sj)
    \<and> (\<forall>m. oauth_manager (fold jira_server_call cj sj) = Some m \<longrightarrow>
          wait_for_authorization jira_deliver m arrivals_j = (True, m, []))
    \<and> jira_authenticate_if_needed (fold jira_server_call cj sj) arrivals_j
        = jira_authenticate_if_needed (fold jira_server_call cj sj) [])
   \<and> (event_set sa \<longrightarrow>
      event_set (fold (ado_server_call str_of) ca sa)
    \<and> (\<forall>m. oauth_manager (fold (ado_server_call str_of) ca sa) = Some m \<longrightarrow>
          wait_for_authorization (ado_deliver str_of) m arrivals_a = (True, m, []))
    \<and> ado_authenticate_if_needed str_of (fold (ado_server_call str_of) ca sa) arrivals_a
        = ado_authenticate_if_needed str_of (fold (ado_server_call str_of) ca sa) [])"
  using jira_history_keeps_event [of sj cj] ado_history_keeps_event [of sa str_of ca]
    jira_authenticate_when_set [of "fold jira_server_call cj sj" arrivals_j]
    ado_authenticate_when_set [of "fold (ado_server_call str_of) ca sa" str_of arrivals_a]
    wait_on_server_when_set [of "fold jira_server_call cj sj" _ jira_deliver arrivals_j]
    wait_on_server_when_set [of "fold (ado_server_call str_of) ca sa" _ "ado_deliver str_of"
      arrivals_a]
  by blast

text \<open>
  C10, at concrete inputs: on each server the event is set, the session is cleared and a
  new flow is started; a callback with a code then arrives during the wait of the next
  authentication.
\<close>

theorem auth_complete_is_never_cleared_witness:
  "event_set \<lparr> oauth_manager = Some (jira_init\<lparr>auth_complete := True\<rparr>),
               auth_method = None, session_authenticated = False \<rparr>
   \<and> event_set (fold jira_server_call [Clear_session, On_manager J_start_oauth_flow]
        \<lparr> oauth_manager = Some (jira_init\<lparr>auth_complete := True\<rparr>),
          auth_method = None, session_authenticated = False \<rparr>)
   \<and> jira_authenticate_if_needed
        (fold jira_server_call [Clear_session, On_manager J_start_oauth_flow]
           \<lparr> oauth_manager = Some (jira_init\<lparr>auth_complete := True\<rparr>),
             auth_method = None, session_authenticated = False \<rparr>)
        [(\<lparr>arg_code = Some ''abc'', arg_error = None\<rparr>, 1000, Response 400 None, Transport_error)]
     = jira_authenticate_if_needed
        (fold jira_server_call [Clear_session, On_manager J_start_oauth_flow]
           \<lparr> oauth_manager = Some (jira_init\<lparr>auth_complete := True\<rparr>),
             auth_method = None, session_authenticated = False \<rparr>) []
   \<and> event_set \<lparr> oauth_manager = Some (ado_init\<lparr>auth_complete := True\<rparr>),
                 auth_method = None, session_authenticated = False \<rparr>
   \<and> event_set (fold (ado_server_call (\<lambda>v. ''?'')) [Clear_session, On_manager A_start_oauth_flow]
        \<lparr> oauth_manager = Some (ado_init\<lparr>auth_complete := True\<rparr>),
          auth_method = None, session_authenticated = False \<rparr>)
   \<and> ado_authenticate_if_needed (\<lambda>v. ''?'')
        (fold (ado_server_call (\<lambda>v. ''?'')) [Clear_session, On_manager A_start_oauth_flow]
           \<lparr> oauth_manager = Some (ado_init\<lparr>auth_complete := True\<rparr>),
             auth_method = None, session_authenticated = False \<rparr>)
        [(\<lparr>arg_code = Some ''abc'', arg_error = None\<rparr>, 1000, Response 400 None,
          Transport_error, Transport_error)]
     = ado_authenticate_if_needed (\<lambda>v. ''?'')
        (fold (ado_server_call (\<lambda>v. ''?'')) [Clear_session, On_manager A_start_oauth_flow]
           \<lparr> oauth_manager = Some (ado_init\<lparr>auth_complete := True\<rparr>),
             auth_method = None, session_authenticated = False \<rparr>) []"
proof -
  have j: "event_set \<lparr> oauth_manager = Some (jira_init\<lparr>auth_complete := True\<rparr>),
                      auth_method = None, session_authenticated = False \<rparr>"
    by (simp add: event_set_def)
  have a: "event_set \<lparr> oauth_manager = Some (ado_init\<lparr>auth_complete := True\<rparr>),
                      auth_method = None, session_authenticated = False \<rparr>"
    by (simp add: event_set_def)
  show ?thesis
    using j a
      auth_complete_is_never_cleared [where
        sj = "\<lparr> oauth_manager = Some (jira_init\<lparr>auth_complete := True\<rparr>),
                auth_method = None, session_authenticated = False \<rparr>"
        and cj = "[Clear_session, On_manager J_start_oauth_flow]"
        and arrivals_j = "[(\<lparr>arg_code = Some ''abc'', arg_error = None\<rparr>, 1000,
                            Response 400 None, Transport_error)]"
        and sa = "\<lparr> oauth_manager = Some (ado_init\<lparr>auth_complete := True\<rparr>),
                    auth_method = None, session_authenticated = False \<rparr>"
        and ca = "[Clear_session, On_manager A_start_oauth_flow]"
        and arrivals_a = "[(\<lparr>arg_code = Some ''abc'', arg_error = None\<rparr>, 1000,
                            Response 400 None, Transport_error, Transport_error)]"
        and str_of = "\<lambda>v. ''?''"]
    by blast
qed

text \<open>
  What this means for a user: a Jira session is authenticated, then cleared; the next
  authentication is answered at once with a failure, although a callback carrying a good
  code would have arrived during its wait. The callback is not served and no token is
  requested.
\<close>

lemma reauthentication_after_clear_session:
  "jira_authenticate_if_needed
     (jira_clear_session
        \<lparr> oauth_manager = Some (jira_init\<lparr>access_token := JStr ''a0'', cloud_id := JStr ''c0'',
                                           oauth_thread_alive := True, auth_complete := True\<rparr>),
          auth_method = Some ''oauth'', session_authenticated = True \<rparr>)
     [(\<lparr>arg_code = Some ''abc'', arg_error = None\<rparr>, 1000,
       Response 200 (Some (JObj [(''access_token'', JStr ''a1''), (''expires_in'', JInt 3600)])),
       Response 200 (Some (JArr [JObj [(''id'', JStr ''c1'')]])))]
   = (False,
      \<lparr> oauth_manager = Some (jira_init\<lparr>oauth_thread_alive := True, auth_complete := True\<rparr>),
        auth_method = None, session_authenticated = False \<rparr>,
      [Open_browser])"
  by (simp add: jira_authenticate_if_needed_def jira_clear_session_def clear_session_def
      jira_clear_tokens_def jira_init_def start_oauth_flow_def jira_is_authenticated_def
      py_and_def)

subsection \<open>The dispatcher\<close>

text \<open>
  C3: for a request whose method is not routed, the spec asks for the error envelope, a
  top-level error member beside jsonrpc and id and no result member. Both servers wrap
  the error object in a result member instead; the envelope with a top-level error is
  only built on the exception path. Evaluated for the unknown method resources/list:
\<close>

theorem unknown_method_error_inside_result:
  "fst (jira_handle_request str_of tools_list tools_call server
          (Parsed (JObj [(''jsonrpc'', JStr ''2.0''), (''id'', JInt 7),
                         (''method'', JStr ''resources/list'')])))
     = Returns (Some (JObj [(''jsonrpc'', JStr ''2.0''), (''id'', JInt 7),
         (''result'', JObj [(''error'', JObj [(''code'', JInt (- 32601)),
            (''message'', JStr (''Method not found: '' @ str_of (JStr ''resources/list'')))])])]))
   \<and> fst (ado_handle_request str_of tools_list tools_call server
          (Parsed (JObj [(''jsonrpc'', JStr ''2.0''), (''id'', JInt 7),
                         (''method'', JStr ''resources/list'')])))
     = Returns (Some (JObj [(''jsonrpc'', JStr ''2.0''), (''id'', JInt 7),
         (''result'', JObj [(''error'', JObj [(''code'', JInt (- 32601)),
            (''message'', JStr (''Method not found: '' @ str_of (JStr ''resources/list'')))])])]))"
  by (simp add: jira_handle_request_def ado_handle_request_def Let_def response_def
      method_not_found_def dict_get_def)

text \<open>The same for every request object whose method is none of the routed ones.\<close>

lemma unknown_method_response:
  assumes "dict_get req ''method'' JNull \<notin>
             {JStr ''initialize'', JStr ''notifications/initialized'', JStr ''tools/list'',
              JStr ''tools/call''}"
  shows "jira_handle_request str_of tools_list tools_call server (Parsed (JObj req))
           = (Returns (Some (JObj [(''jsonrpc'', JStr ''2.0''), (''id'', dict_get req ''id'' JNull),
                 (''result'', JObj [(''error'', JObj [(''code'', JInt (- 32601)),
                    (''message'', JStr (''Method not found: ''
                                          @ str_of (dict_get req ''method'' JNull)))])])])),
              server)"
    and "ado_handle_request str_of tools_list tools_call server (Parsed (JObj req))
           = (Returns (Some (JObj [(''jsonrpc'', JStr ''2.0''), (''id'', dict_get req ''id'' JNull),
                 (''result'', JObj [(''error'', JObj [(''code'', JInt (- 32601)),
                    (''message'', JStr (''Method not found: ''
                                          @ str_of (dict_get req ''method'' JNull)))])])])),
              server)"
  using assms
  by (simp_all add: jira_handle_request_def ado_handle_request_def Let_def response_def
      method_not_found_def)

text \<open>
  C2: one response per request that is not a notification, in order, and none for
  notifications/initialized. The ADO loop has no branch for the notification and answers
  it with a method-not-found response; the Jira loop, on the same line, prints nothing.
\<close>

theorem ado_answers_initialized_notification:
  "fst (main_loop (ado_handle_request str_of tools_list tools_call) server
          [Parsed (JObj [(''jsonrpc'', JStr ''2.0''),
                         (''method'', JStr ''notifications/initialized'')])])
     = [JObj [(''jsonrpc'', JStr ''2.0''), (''id'', JNull),
          (''result'', JObj [(''error'', JObj [(''code'', JInt (- 32601)),
             (''message'', JStr (''Method not found: ''
                                   @ str_of (JStr ''notifications/initialized'')))])])]]
   \<and> fst (main_loop (jira_handle_request str_of tools_list tools_call) server
          [Parsed (JObj [(''jsonrpc'', JStr ''2.0''),
                         (''method'', JStr ''notifications/initialized'')])])
     = []"
  by (simp add: jira_handle_request_def ado_handle_request_def Let_def response_def
      method_not_found_def dict_get_def)

text \<open>
  In both servers a line that parses to a non-empty JSON array (a JSON-RPC batch, say)
  ends the loop: the requests after it get no response.
\<close>

lemma main_loop_ends_on_array:
  "fst (main_loop (jira_handle_request str_of tools_list tools_call) server
          (Parsed (JArr (x # xs)) # rest)) = []"
  "fst (main_loop (ado_handle_request str_of tools_list tools_call) server
          (Parsed (JArr (x # xs)) # rest)) = []"
  by (simp_all add: jira_handle_request_def ado_handle_request_def)

text \<open>
  The Jira branch is for \<^verbatim>\<open>notifications/initialized\<close> alone: any other notification is
  answered like an unknown method.
\<close>

lemma jira_answers_other_notifications:
  "fst (main_loop (jira_handle_request str_of tools_list tools_call) server
          [Parsed (JObj [(''jsonrpc'', JStr ''2.0''),
                         (''method'', JStr ''notifications/cancelled'')])])
     = [JObj [(''jsonrpc'', JStr ''2.0''), (''id'', JNull),
          (''result'', JObj [(''error'', JObj [(''code'', JInt (- 32601)),
             (''message'', JStr (''Method not found: ''
                                   @ str_of (JStr ''notifications/cancelled'')))])])]]"
  by (simp add: jira_handle_request_def Let_def response_def method_not_found_def dict_get_def)

text \<open>
  What does hold in the Jira server: as long as \<^verbatim>\<open>handle_request\<close> returns on every line,
  the responses are, in order, those of the lines that are not
  \<^verbatim>\<open>notifications/initialized\<close>, one each, with the id of the line.
\<close>

lemma jira_handle_request_cases:
  assumes "returns_on l"
  shows "\<exists>r s'. jira_handle_request str_of tools_list tools_call s l = (Returns r, s')
           \<and> (if is_initialized_notification l then r = None
               else \<exists>resp. r = Some resp \<and> truthy resp \<and> response_id resp = line_id l)"
proof (cases l)
  case (Unparseable e)
  then show ?thesis
    by (simp add: jira_handle_request_def is_initialized_notification_def line_id_def
        response_id_def internal_error_def dict_get_def)
next
  case (Parsed v)
  show ?thesis
  proof (cases v)
    case (JObj req)
    obtain res s1 where tc: "tools_call s (dict_get req ''params'' (JObj [])) = (res, s1)"
      by (cases "tools_call s (dict_get req ''params'' (JObj []))") auto
    show ?thesis using Parsed JObj tc
      by (cases res)
         (auto simp: jira_handle_request_def is_initialized_notification_def line_id_def
          response_id_def internal_error_def response_def Let_def dict_get_def)
  qed (use Parsed assms in \<open>auto simp: jira_handle_request_def is_initialized_notification_def
        line_id_def response_id_def internal_error_def dict_get_def returns_on_def\<close>)
qed

lemma jira_one_response_per_request:
  assumes "\<forall>l \<in> set ls. returns_on l"
  shows "map response_id (fst (main_loop (jira_handle_request str_of tools_list tools_call) s ls))
           = map line_id (filter (\<lambda>l. \<not> is_initialized_notification l) ls)"
  using assms
proof (induction ls arbitrary: s)
  case Nil
  then show ?case by simp
next
  case (Cons l ls)
  from Cons.prems have "returns_on l" by simp
  from jira_handle_request_cases [OF this, of str_of tools_list tools_call s]
  obtain r s' where h: "jira_handle_request str_of tools_list tools_call s l = (Returns r, s')"
    and r: "if is_initialized_notification l then r = None
            else \<exists>resp. r = Some resp \<and> truthy resp \<and> response_id resp = line_id l"
    by blast
  have ih: "map response_id
              (fst (main_loop (jira_handle_request str_of tools_list tools_call) s' ls))
           = map line_id (filter (\<lambda>l. \<not> is_initialized_notification l) ls)"
    using Cons by simp
  show ?case
    using h r ih by (auto split: prod.splits)
qed

end
